theory Spec2Isabelle
  imports Complex_Main "HOL-Library.Word" "HOL-Library.Log_Nat"
begin

section \<open>Voice style store and interpolation engine\<close>

text \<open>
  A shallow embedding of \<^verbatim>\<open>kokovoicelab.py\<close>, \<^verbatim>\<open>scripts/create_voice_db.py\<close> and
  \<^verbatim>\<open>scripts/export_voice.py\<close>.

  Conventions of the model.
  \<^item> A style vector is a one-dimensional numpy array. The group resolver and the workflow
    are modelled with real numbers as elements: there only shapes, failures and the
    order of effects are at stake, and the rounding of numpy's floating-point operations
    is outside that part of the model. The interpolation engine is modelled a second time
    on float32 elements, with the rounding of every operation, for what it computes. The
    blob codec is modelled separately, on the bit patterns of the elements.
  \<^item> Every exception is a value of type \<open>error\<close>, and a function that can raise
    returns \<open>error + 'a\<close> with \<open>Inl\<close> for the exception.
  \<^item> Console output is not modelled.
\<close>

subsection \<open>Exceptions\<close>

datatype error =
    ValueError string
  | KeyError string
  | IntegrityError string
  | OperationalError string
  | ParserError string  \<comment> \<open>\<^verbatim>\<open>parser.error(message)\<close>: usage message, exit status 2\<close>
  | GatewayError string  \<comment> \<open>a failure of the synthesis engine\<close>
  | EOFError string
  | Unmodelled string  \<comment> \<open>not an exception: the input is outside what the model covers\<close>

subsection \<open>numpy arithmetic on one-dimensional arrays\<close>

type_synonym ndarray = "real list"

text \<open>
  A binary operator on two one-dimensional arrays follows numpy's broadcasting rule:
  equal lengths combine element by element, an array of length one is stretched to the
  other's length, and any other pair of lengths raises \<^verbatim>\<open>ValueError\<close>.
\<close>

definition np_binop :: "('a \<Rightarrow> 'a \<Rightarrow> 'a) \<Rightarrow> 'a list \<Rightarrow> 'a list \<Rightarrow> error + 'a list" where
  "np_binop f a b =
     (if length a = length b then Inr (map2 f a b)
      else if length a = 1 then Inr (map (f (hd a)) b)
      else if length b = 1 then Inr (map (\<lambda>x. f x (hd b)) a)
      else Inl (ValueError ''operands could not be broadcast together''))"

definition np_scalar :: "('a \<Rightarrow> 'a \<Rightarrow> 'a) \<Rightarrow> 'a list \<Rightarrow> 'a \<Rightarrow> 'a list" where
  "np_scalar f a c = map (\<lambda>x. f x c) a"

subsection \<open>Interpolation engine\<close>

text \<open>
  \<^verbatim>\<open>
  def interpolate_styles(style1, style2, factor):
      diff_vector = style2 - style1
      midpoint = (style1 + style2) / 2
      return midpoint + (diff_vector * factor / 2)
  \<close>
  Over the real numbers, for the workflow, where the shape of the result and the failures
  count; the float32 model below has the same shapes and the same failures, and the
  values numpy computes.
\<close>

definition interpolate_styles :: "ndarray \<Rightarrow> ndarray \<Rightarrow> real \<Rightarrow> error + ndarray" where
  "interpolate_styles style1 style2 factor =
     (case np_binop (-) style2 style1 of
        Inl e \<Rightarrow> Inl e
      | Inr diff_vector \<Rightarrow>
          (case np_binop (+) style1 style2 of
             Inl e \<Rightarrow> Inl e
           | Inr s \<Rightarrow>
               let midpoint = np_scalar (/) s 2
               in np_binop (+) midpoint (np_scalar (/) (np_scalar (*) diff_vector factor) 2)))"

subsection \<open>numpy arithmetic on float32 elements\<close>

text \<open>
  Kokoro's style vectors are float32 arrays, and numpy keeps float32 through
  \<^verbatim>\<open>interpolate_styles\<close>: the Python scalars \<^verbatim>\<open>factor\<close> and \<^verbatim>\<open>2\<close> are converted to
  float32 and every operation rounds its exact result to float32 (IEEE 754 binary32, round
  to nearest, ties to even).

  A finite float32 value is an integer multiple of \<open>2**-149\<close> (the smallest subnormal);
  \<open>Finite k\<close> stands for \<open>k * 2**-149\<close>. The two zeros are one value (numpy compares
  them equal), and there is one NaN.
\<close>

datatype float32 = Finite int | Infinity bool | NaN

text \<open>
  \<open>rne_shift n sh\<close> is \<open>n / 2**sh\<close> rounded to the nearest integer, ties to the even one.
\<close>

definition rne_shift :: "int \<Rightarrow> nat \<Rightarrow> int" where
  "rne_shift n sh =
     (let q = n div 2 ^ sh; r = n mod 2 ^ sh
      in if 2 * r < 2 ^ sh then q
         else if 2 ^ sh < 2 * r then q + 1
         else if even q then q else q + 1)"

text \<open>
  \<open>overflow\<close> is \<open>2**128\<close> in units of \<open>2**-149\<close>: a rounded magnitude that reaches it
  becomes an infinity.
\<close>

definition overflow :: int where
  "overflow = 2 ^ 277"

text \<open>
  \<open>round_to n j\<close> rounds the exact value \<open>n * 2**-(149+j)\<close> to float32: the significand
  keeps 24 bits (\<open>bitlen \<bar>n\<bar> - 24\<close> low bits are rounded away), and no bit below
  \<open>2**-149\<close> survives (at least \<open>j\<close> bits are rounded away: gradual underflow).
\<close>

definition round_to :: "int \<Rightarrow> nat \<Rightarrow> float32" where
  "round_to n j =
     (let sh = max j (nat (bitlen \<bar>n\<bar> - 24));
          k = rne_shift n sh * 2 ^ (sh - j)
      in if overflow \<le> \<bar>k\<bar> then Infinity (0 < n) else Finite k)"

text \<open>
  A value is a float32 when it has at most 24 significant bits and is below the overflow
  threshold.
\<close>

definition representable :: "int \<Rightarrow> bool" where
  "representable k \<longleftrightarrow> k mod 2 ^ nat (bitlen \<bar>k\<bar> - 24) = 0 \<and> \<bar>k\<bar> < overflow"

fun is_float32 :: "float32 \<Rightarrow> bool" where
  "is_float32 (Finite k) = representable k"
| "is_float32 x = True"

fun is_finite :: "float32 \<Rightarrow> bool" where
  "is_finite (Finite a) = True"
| "is_finite x = False"

text \<open>
  The operations: the exact result, rounded; the special values as IEEE 754 has them.
  \<open>fhalf\<close> is the division by the constant 2.
\<close>

fun fneg :: "float32 \<Rightarrow> float32" where
  "fneg (Finite a) = Finite (- a)"
| "fneg (Infinity s) = Infinity (\<not> s)"
| "fneg NaN = NaN"

fun fadd :: "float32 \<Rightarrow> float32 \<Rightarrow> float32" where
  "fadd (Finite a) (Finite b) = round_to (a + b) 0"
| "fadd (Finite a) (Infinity s) = Infinity s"
| "fadd (Infinity s) (Finite b) = Infinity s"
| "fadd (Infinity s) (Infinity s') = (if s = s' then Infinity s else NaN)"
| "fadd NaN y = NaN"
| "fadd x NaN = NaN"

definition fsub :: "float32 \<Rightarrow> float32 \<Rightarrow> float32" where
  "fsub x y = fadd x (fneg y)"

fun fmul :: "float32 \<Rightarrow> float32 \<Rightarrow> float32" where
  "fmul (Finite a) (Finite b) = round_to (a * b) 149"
| "fmul (Finite a) (Infinity s) = (if a = 0 then NaN else Infinity (s = (0 < a)))"
| "fmul (Infinity s) (Finite b) = (if b = 0 then NaN else Infinity (s = (0 < b)))"
| "fmul (Infinity s) (Infinity s') = Infinity (s = s')"
| "fmul NaN y = NaN"
| "fmul x NaN = NaN"

fun fhalf :: "float32 \<Rightarrow> float32" where
  "fhalf (Finite a) = round_to a 1"
| "fhalf (Infinity s) = Infinity s"
| "fhalf NaN = NaN"

text \<open>\<open>dyadic m e\<close> is the value \<open>m * 2**e\<close>, for \<open>-149 \<le> e\<close>.\<close>

definition dyadic :: "int \<Rightarrow> int \<Rightarrow> float32" where
  "dyadic m e = Finite (m * 2 ^ nat (e + 149))"

text \<open>
  \<^verbatim>\<open>interpolate_styles\<close> on float32 arrays, with the factor as numpy converts it to float32.
\<close>

definition interpolate_styles_float32 ::
  "float32 list \<Rightarrow> float32 list \<Rightarrow> float32 \<Rightarrow> error + float32 list" where
  "interpolate_styles_float32 style1 style2 factor =
     (case np_binop fsub style2 style1 of
        Inl e \<Rightarrow> Inl e
      | Inr diff_vector \<Rightarrow>
          (case np_binop fadd style1 style2 of
             Inl e \<Rightarrow> Inl e
           | Inr s \<Rightarrow>
               let midpoint = map fhalf s
               in np_binop fadd midpoint (map fhalf (np_scalar fmul diff_vector factor))))"

text \<open>
  Two elements for which no operation of the interpolation rounds at factor 1 or -1:
  their sum and their difference are float32 values, and the sum is an even multiple of
  \<open>2**-149\<close>, so that halving is exact.
\<close>

fun exact_pair :: "float32 \<Rightarrow> float32 \<Rightarrow> bool" where
  "exact_pair (Finite a) (Finite b) =
     (representable a \<and> representable b \<and> representable (a + b) \<and> representable (b - a)
      \<and> even (a + b))"
| "exact_pair x y = False"

text \<open>The difference of two elements is finite: no overflow, no infinity, no NaN.\<close>

definition difference_finite :: "float32 \<Rightarrow> float32 \<Rightarrow> bool" where
  "difference_finite s t = is_finite (fsub t s)"

subsection \<open>Blob codec (\<^verbatim>\<open>adapt_array\<close>, \<^verbatim>\<open>convert_array\<close>)\<close>

text \<open>
  \<^verbatim>\<open>
  def adapt_array(arr):            def convert_array(blob):
      out = io.BytesIO()               out = io.BytesIO(blob)
      np.save(out, arr)                return np.load(out)
      return out.getvalue()
  \<close>
  Both delegate to numpy's \<^verbatim>\<open>.npy\<close> format, which the model writes out (format version
  1.0 as numpy 1.24 and later write it; versions 2.0 and 3.0 are read as well). For the
  codec an array is its shape and the bit patterns of its elements in C order; the model
  covers the element types \<^verbatim>\<open>float32\<close> and \<^verbatim>\<open>float64\<close>, little-endian. The memory
  layout of an array is outside the model: the writer's \<^verbatim>\<open>fortran_order\<close> is
  \<^verbatim>\<open>False\<close>, as it is for every array in C layout.
\<close>

type_synonym byte = "8 word"

datatype elements = Float32 "32 word list" | Float64 "64 word list"

record npy_array =
  shape :: "nat list"
  elements :: elements

text \<open>
  numpy's own invariants of an array: at most 64 dimensions (32 before numpy 2), every
  dimension a signed 64-bit size, and as many elements as the shape says.
\<close>

fun count_elements :: "elements \<Rightarrow> nat" where
  "count_elements (Float32 ws) = length ws"
| "count_elements (Float64 ws) = length ws"

definition valid_array :: "npy_array \<Rightarrow> bool" where
  "valid_array a \<longleftrightarrow>
     length (shape a) \<le> 64 \<and> (\<forall>d \<in> set (shape a). d < 2 ^ 63)
     \<and> prod_list (shape a) = count_elements (elements a)"

text \<open>Python's \<^verbatim>\<open>str.split(sep)\<close> for a separator of one character.\<close>

fun split_on :: "char \<Rightarrow> string \<Rightarrow> string list" where
  "split_on c [] = [[]]"
| "split_on c (x # xs) =
     (if x = c then [] # split_on c xs
      else (case split_on c xs of [] \<Rightarrow> [[x]] | w # ws \<Rightarrow> (x # w) # ws))"

paragraph \<open>Bytes\<close>

definition byte_of_char :: "char \<Rightarrow> byte" where
  "byte_of_char c = word_of_nat (of_char c)"

definition char_of_byte :: "byte \<Rightarrow> char" where
  "char_of_byte b = char_of (unat b)"

text \<open>\<^verbatim>\<open>struct.pack\<close> and \<^verbatim>\<open>unpack\<close> of an unsigned little-endian number of \<open>n\<close> bytes.\<close>

primrec le_bytes :: "nat \<Rightarrow> nat \<Rightarrow> byte list" where
  "le_bytes 0 k = []"
| "le_bytes (Suc n) k = word_of_nat (k mod 256) # le_bytes n (k div 256)"

fun le_value :: "byte list \<Rightarrow> nat" where
  "le_value [] = 0"
| "le_value (b # bs) = unat b + 256 * le_value bs"

paragraph \<open>Python's \<^verbatim>\<open>repr\<close> of a shape\<close>

function repr_nat :: "nat \<Rightarrow> string" where
  "repr_nat n =
     (if n < 10 then [char_of (48 + n)]
      else repr_nat (n div 10) @ [char_of (48 + n mod 10)])"
  by pat_completeness auto
termination
  by (relation "measure id") auto

declare repr_nat.simps [simp del]

fun tuple_body :: "nat list \<Rightarrow> string" where
  "tuple_body [] = []"
| "tuple_body [n] = repr_nat n @ '',''"
| "tuple_body (n # ns) = repr_nat n @ concat (map (\<lambda>m. '', '' @ repr_nat m) ns)"

definition repr_tuple :: "nat list \<Rightarrow> string" where
  "repr_tuple dims = ''('' @ tuple_body dims @ '')''"

paragraph \<open>Writing\<close>

definition MAGIC_PREFIX :: "byte list" where
  "MAGIC_PREFIX = 0x93 # map byte_of_char ''NUMPY''"

definition descr_of :: "elements \<Rightarrow> string" where
  "descr_of e = (case e of Float32 _ \<Rightarrow> ''<f4'' | Float64 _ \<Rightarrow> ''<f8'')"

text \<open>
  The header is the dictionary literal with its keys sorted, followed by spare spaces that
  let the first dimension grow to 21 digits in place.
\<close>

definition header_text :: "npy_array \<Rightarrow> string" where
  "header_text a =
     ''{'descr': '' @ [CHR 0x27] @ descr_of (elements a) @ [CHR 0x27]
       @ '', 'fortran_order': False, 'shape': '' @ repr_tuple (shape a) @ '', }''
       @ (case shape a of [] \<Rightarrow> [] | d # _ \<Rightarrow> replicate (21 - length (repr_nat d)) CHR '' '')"

text \<open>
  \<^verbatim>\<open>_wrap_header\<close>: magic string, version 1.0, the length of what follows as an unsigned
  16-bit number, the header, and padding with spaces and a final newline up to a multiple
  of 64 bytes.
\<close>

definition wrap_header :: "string \<Rightarrow> byte list" where
  "wrap_header header =
     (let hlen = length header + 1;
          padlen = 64 - ((8 + 2 + hlen) mod 64)
      in MAGIC_PREFIX @ [1, 0] @ le_bytes 2 (hlen + padlen)
         @ map byte_of_char (header @ replicate padlen CHR '' '' @ [CHR 0x0A]))"

definition tobytes :: "elements \<Rightarrow> byte list" where
  "tobytes e =
     (case e of
        Float32 ws \<Rightarrow> concat (map (\<lambda>w. le_bytes 4 (unat w)) ws)
      | Float64 ws \<Rightarrow> concat (map (\<lambda>w. le_bytes 8 (unat w)) ws))"

definition adapt_array :: "npy_array \<Rightarrow> byte list" where
  "adapt_array arr = wrap_header (header_text arr) @ tobytes (elements arr)"

paragraph \<open>Reading\<close>

text \<open>
  numpy evaluates the header with Python's \<^verbatim>\<open>ast.literal_eval\<close>. The model reads the
  dictionary literals of the form the writer produces: the three keys in sorted order, a
  quoted \<open>descr\<close>, \<^verbatim>\<open>True\<close> or \<^verbatim>\<open>False\<close>, and a tuple of decimal numbers without leading
  zeros, followed by blanks only.
\<close>

fun strip_prefix :: "'a list \<Rightarrow> 'a list \<Rightarrow> 'a list option" where
  "strip_prefix [] s = Some s"
| "strip_prefix (p # ps) [] = None"
| "strip_prefix (p # ps) (c # cs) = (if p = c then strip_prefix ps cs else None)"

definition is_digit :: "char \<Rightarrow> bool" where
  "is_digit c \<longleftrightarrow> 48 \<le> (of_char c :: nat) \<and> (of_char c :: nat) \<le> 57"

definition nat_of_digits :: "string \<Rightarrow> nat" where
  "nat_of_digits s = foldl (\<lambda>acc c. 10 * acc + (of_char c - 48)) 0 s"

definition parse_int :: "string \<Rightarrow> nat option" where
  "parse_int s =
     (if s \<noteq> [] \<and> list_all is_digit s \<and> (hd s = CHR ''0'' \<longrightarrow> s = ''0'')
      then Some (nat_of_digits s) else None)"

definition parse_next :: "string \<Rightarrow> nat option" where
  "parse_next s = (case s of [] \<Rightarrow> None | c # ds \<Rightarrow> if c = CHR '' '' then parse_int ds else None)"

text \<open>
  The text between the parentheses, split at its commas: \<^verbatim>\<open>()\<close> is the empty shape,
  \<^verbatim>\<open>(n,)\<close> one dimension, \<^verbatim>\<open>(n, m, ...)\<close> several; \<^verbatim>\<open>(n)\<close> is not a tuple.
\<close>

definition parse_dims :: "string \<Rightarrow> nat list option" where
  "parse_dims body =
     (case split_on CHR '','' body of
        [] \<Rightarrow> None
      | [n] \<Rightarrow> if n = [] then Some [] else None
      | n # m # rest \<Rightarrow>
          (case parse_int n of
             None \<Rightarrow> None
           | Some d \<Rightarrow>
               if m = [] \<and> rest = [] then Some [d]
               else (case those (map parse_next (m # rest)) of
                       None \<Rightarrow> None
                     | Some ds \<Rightarrow> Some (d # ds))))"

definition parse_header :: "string \<Rightarrow> error + (string \<times> bool \<times> nat list)" where
  "parse_header header =
     (let bad = Inl (ValueError ''Cannot parse header'')
      in case strip_prefix (''{'descr': '' @ [CHR 0x27]) header of
           None \<Rightarrow> bad
         | Some r1 \<Rightarrow>
             let descr = takeWhile (\<lambda>c. c \<noteq> CHR 0x27) r1;
                 r2 = dropWhile (\<lambda>c. c \<noteq> CHR 0x27) r1
             in case strip_prefix ([CHR 0x27] @ '', 'fortran_order': '') r2 of
                  None \<Rightarrow> bad
                | Some r3 \<Rightarrow>
                    (case (case strip_prefix ''False'' r3 of
                             Some r \<Rightarrow> Some (False, r)
                           | None \<Rightarrow> map_option (Pair True) (strip_prefix ''True'' r3)) of
                       None \<Rightarrow> bad
                     | Some (fortran_order, r4) \<Rightarrow>
                         (case strip_prefix '', 'shape': ('' r4 of
                            None \<Rightarrow> bad
                          | Some r5 \<Rightarrow>
                              let body = takeWhile (\<lambda>c. c \<noteq> CHR '')'') r5;
                                  r6 = dropWhile (\<lambda>c. c \<noteq> CHR '')'') r5
                              in case strip_prefix ''), }'' r6 of
                                   None \<Rightarrow> bad
                                 | Some r7 \<Rightarrow>
                                     if \<not> list_all (\<lambda>c. c = CHR '' '' \<or> c = CHR 0x0A) r7 then bad
                                     else (case parse_dims body of
                                             None \<Rightarrow> bad
                                           | Some dims \<Rightarrow> Inr (descr, fortran_order, dims)))))"

definition itemsize :: "string \<Rightarrow> nat option" where
  "itemsize descr =
     (if descr = ''<f4'' then Some 4 else if descr = ''<f8'' then Some 8 else None)"

primrec read_items :: "nat \<Rightarrow> nat \<Rightarrow> byte list \<Rightarrow> nat list" where
  "read_items sz 0 bs = []"
| "read_items sz (Suc c) bs = le_value (take sz bs) # read_items sz c (drop sz bs)"

text \<open>
  \<^verbatim>\<open>format.read_array\<close>: the magic string and the version, the header length, the header,
  then \<open>count\<close> elements of the header's element type. A short read raises
  \<^verbatim>\<open>ValueError\<close>; bytes after the last element are ignored.
\<close>

definition read_array :: "byte list \<Rightarrow> error + npy_array" where
  "read_array blob =
     (if length blob < 8 then Inl (ValueError ''EOF: reading magic string'')
      else
        let major = blob ! 6; minor = blob ! 7
        in if (major, minor) \<notin> set [(1, 0), (2, 0), (3, 0)]
           then Inl (ValueError ''we only support format version (1,0), (2,0), and (3,0)'')
           else
             let lensize = (if major = 1 then 2 else 4);
                 r = drop 8 blob
             in if length r < lensize then Inl (ValueError ''EOF: reading array header length'')
                else
                  let hlen = le_value (take lensize r);
                      r' = drop lensize r
                  in if length r' < hlen then Inl (ValueError ''EOF: reading array header'')
                     else
                       let header = map char_of_byte (take hlen r')
                       in if length header > 10000
                          then Inl (ValueError ''Header info length is large'')
                          else
                            (case parse_header header of
                               Inl e \<Rightarrow> Inl e
                             | Inr (descr, fortran_order, dims) \<Rightarrow>
                                 (case itemsize descr of
                                    None \<Rightarrow> Inl (Unmodelled descr)
                                  | Some sz \<Rightarrow>
                                      if fortran_order then Inl (Unmodelled ''fortran_order'')
                                      else
                                        let count = prod_list dims;
                                            data = drop hlen r'
                                        in if length data < count * sz
                                           then Inl (ValueError ''EOF: reading array data'')
                                           else
                                             let items = read_items sz count data
                                             in Inr \<lparr>shape = dims,
                                                     elements =
                                                       (if sz = 4 then Float32 (map word_of_nat items)
                                                        else Float64 (map word_of_nat items))\<rparr>)))"

text \<open>
  \<^verbatim>\<open>np.load\<close>: an empty blob raises \<^verbatim>\<open>EOFError\<close>; a blob with the zip signature is opened
  as an archive, which is not an array; a blob without the magic string is taken for a
  pickle, which \<^verbatim>\<open>allow_pickle=False\<close> refuses.
\<close>

definition convert_array :: "byte list \<Rightarrow> error + npy_array" where
  "convert_array blob =
     (if blob = [] then Inl (EOFError ''No data left in file'')
      else if take 4 blob = map byte_of_char ''PK'' @ [3, 4]
              \<or> take 4 blob = map byte_of_char ''PK'' @ [5, 6]
      then Inl (Unmodelled ''npz archive'')
      else if take 6 blob \<noteq> MAGIC_PREFIX
      then Inl (ValueError ''Cannot load file containing pickled data when allow_pickle=False'')
      else read_array blob)"

subsection \<open>Voice store\<close>

text \<open>
  The \<^verbatim>\<open>voices\<close> table of \<^verbatim>\<open>create_voice_database\<close>:
  \<^verbatim>\<open>
  name TEXT PRIMARY KEY, gender TEXT NOT NULL, language TEXT NOT NULL,
  quality INTEGER NOT NULL, training_duration TEXT, style_vector array NOT NULL,
  is_synthetic BOOLEAN NOT NULL DEFAULT 0, notes TEXT,
  created_at TIMESTAMP DEFAULT CURRENT_TIMESTAMP
  \<close>
  A row holds the columns in this order; a nullable column is an \<open>option\<close>. The
  \<open>style_vector\<close> column is held decoded.
\<close>

record voice_row =
  name :: string
  gender :: string
  language :: string
  quality :: int
  training_duration :: "string option"
  style_vector :: ndarray
  is_synthetic :: bool
  row_notes :: "string option"  \<comment> \<open>the column \<^verbatim>\<open>notes\<close>\<close>
  created_at :: nat

text \<open>
  A connection sees its own uncommitted changes (\<open>table\<close>); \<open>disk\<close> is the table as
  committed to the database file. \<^verbatim>\<open>conn.commit()\<close> copies the first to the second;
  closing a connection throws away what was not committed.
\<close>

record connection =
  table :: "voice_row list"
  disk :: "voice_row list"

definition connect :: "voice_row list \<Rightarrow> connection" where
  "connect db = \<lparr>table = db, disk = db\<rparr>"

definition commit :: "connection \<Rightarrow> connection" where
  "commit conn = conn\<lparr>disk := table conn\<rparr>"

text \<open>
  The selection query is a string in the storage engine's query language. The engine is a
  parameter of the model: it maps the query text and the table to the matching rows, or
  to the engine's own error.
\<close>

type_synonym sql_engine = "string \<Rightarrow> voice_row list \<Rightarrow> error + voice_row list"

subsection \<open>Group resolver\<close>

text \<open>
  \<^verbatim>\<open>np.mean(style_vectors, axis=0)\<close> on a list of one-dimensional arrays: numpy first
  builds one two-dimensional array from the list, which raises \<^verbatim>\<open>ValueError\<close> when the
  rows differ in length (numpy 1.24 and later); it then adds the rows up along axis 0,
  starting from the first row, and divides every sum by the number of rows. (For an empty
  list numpy returns \<^verbatim>\<open>nan\<close> with a warning; \<open>get_voice_group_vector\<close> raises before it
  gets there, and the model's value for that case is never used.)
\<close>

definition np_asarray :: "ndarray list \<Rightarrow> error + ndarray list" where
  "np_asarray vs =
     (if \<forall>v \<in> set vs. length v = length (hd vs) then Inr vs
      else Inl (ValueError ''setting an array element with a sequence. The requested array has an inhomogeneous shape''))"

fun np_add_reduce :: "ndarray list \<Rightarrow> ndarray" where
  "np_add_reduce [] = []"
| "np_add_reduce (v # vs) = foldl (map2 (+)) v vs"

definition np_mean_axis0 :: "ndarray list \<Rightarrow> error + ndarray" where
  "np_mean_axis0 vs =
     (case np_asarray vs of
        Inl e \<Rightarrow> Inl e
      | Inr rows \<Rightarrow> Inr (np_scalar (/) (np_add_reduce rows) (real (length rows))))"

text \<open>
  \<^verbatim>\<open>
  def get_voice_group_vector(conn, query):
      cursor = conn.cursor()
      cursor.execute(query)
      voices = cursor.fetchall()
      if not voices:
          raise ValueError(f"No voices found for query: {query}")
      style_vectors = [voice[5] for voice in voices]
      return np.mean(style_vectors, axis=0)
  \<close>
\<close>

definition get_voice_group_vector :: "sql_engine \<Rightarrow> connection \<Rightarrow> string \<Rightarrow> error + ndarray" where
  "get_voice_group_vector execute conn query =
     (case execute query (table conn) of
        Inl e \<Rightarrow> Inl e
      | Inr voices \<Rightarrow>
          if voices = [] then Inl (ValueError (''No voices found for query: '' @ query))
          else
            let style_vectors = map style_vector voices
            in np_mean_axis0 style_vectors)"

subsection \<open>The interpolation workflow (\<^verbatim>\<open>kokovoicelab.py\<close>, \<^verbatim>\<open>main\<close>)\<close>

text \<open>
  The options as given on the command line (\<open>None\<close>: the option is absent) and the
  namespace that \<^verbatim>\<open>parser.parse_args()\<close> returns, with argparse's defaults filled in.
  Option values are held converted (\<^verbatim>\<open>type=float\<close>, \<^verbatim>\<open>type=int\<close>).
\<close>

record argv =
  opt_source_query :: "string option"
  opt_target_query :: "string option"
  opt_text :: "string option"
  opt_ranges :: "string option"
  opt_speed :: "real option"
  opt_lang :: "string option"
  opt_output_dir :: "string option"
  opt_db_path :: "string option"
  opt_insert :: "real option"
  opt_name :: "string option"
  opt_gender :: "string option"
  opt_quality :: "int option"
  opt_notes :: "string option"

record args =
  args_source_query :: string
  args_target_query :: string
  args_text :: string
  args_ranges :: string
  args_speed :: real
  args_lang :: string
  args_output_dir :: string
  args_db_path :: string
  args_insert :: "real option"
  args_name :: "string option"
  args_gender :: "string option"
  args_quality :: "int option"
  args_notes :: "string option"

definition default :: "'a \<Rightarrow> 'a option \<Rightarrow> 'a" where
  "default d opt = (case opt of None \<Rightarrow> d | Some v \<Rightarrow> v)"

definition parse_args :: "argv \<Rightarrow> error + args" where
  "parse_args argv =
     (if (case opt_gender argv of None \<Rightarrow> False | Some g \<Rightarrow> g \<notin> set [''M'', ''F'', ''X''])
      then Inl (ParserError ''argument --gender: invalid choice'')
      else if (case opt_quality argv of None \<Rightarrow> False | Some q \<Rightarrow> \<not> (0 \<le> q \<and> q < 101))
      then Inl (ParserError ''argument --quality: invalid choice'')
      else
        (case opt_source_query argv of
           None \<Rightarrow> Inl (ParserError ''the following arguments are required: --source-query'')
         | Some source_query \<Rightarrow>
        (case opt_target_query argv of
           None \<Rightarrow> Inl (ParserError ''the following arguments are required: --target-query'')
         | Some target_query \<Rightarrow>
             Inr \<lparr>args_source_query = source_query,
                  args_target_query = target_query,
                  args_text = default ''Hello, world!'' (opt_text argv),
                  args_ranges = default ''-2,-1,-0.5,0,0.5,1,2'' (opt_ranges argv),
                  args_speed = default 1 (opt_speed argv),
                  args_lang = default ''en-us'' (opt_lang argv),
                  args_output_dir = default ''output'' (opt_output_dir argv),
                  args_db_path = default ''voices.db'' (opt_db_path argv),
                  args_insert = opt_insert argv,
                  args_name = opt_name argv,
                  args_gender = opt_gender argv,
                  args_quality = opt_quality argv,
                  args_notes = opt_notes argv\<rparr>)))"

text \<open>
  \<^verbatim>\<open>
  if args.insert is not None:
      if not args.name:       parser.error("--name is required when using --insert")
      if not args.gender:     parser.error("--gender is required when using --insert")
      if args.quality is None: parser.error("--quality is required when using --insert")
  \<close>
  The validated request (factor, name, gender, quality) is what the insertion branch
  reads later; \<open>None\<close> stands for a run without \<^verbatim>\<open>--insert\<close>.
\<close>

type_synonym insertion = "real \<times> string \<times> string \<times> int"

definition validate_insert :: "args \<Rightarrow> error + insertion option" where
  "validate_insert a =
     (case args_insert a of
        None \<Rightarrow> Inr None
      | Some factor \<Rightarrow>
          (case args_name a of
             None \<Rightarrow> Inl (ParserError ''--name is required when using --insert'')
           | Some nm \<Rightarrow>
               if nm = [] then Inl (ParserError ''--name is required when using --insert'')
               else
                 (case args_gender a of
                    None \<Rightarrow> Inl (ParserError ''--gender is required when using --insert'')
                  | Some gd \<Rightarrow>
                      if gd = [] then Inl (ParserError ''--gender is required when using --insert'')
                      else
                        (case args_quality a of
                           None \<Rightarrow> Inl (ParserError ''--quality is required when using --insert'')
                         | Some ql \<Rightarrow> Inr (Some (factor, nm, gd, ql))))))"

text \<open>
  What the workflow does to the world outside, in order: the output directory, the
  database connection and every statement sent through it, the synthesis engine and the
  audio files. A statement is recorded when it is sent, whether or not it succeeds.
\<close>

type_synonym audio = "real list \<times> nat"  \<comment> \<open>samples and sample rate\<close>

datatype event =
    MkDir string
  | Connect string
  | Execute string  \<comment> \<open>a selection query\<close>
  | LoadKokoro
  | Insert voice_row  \<comment> \<open>the \<^verbatim>\<open>INSERT INTO voices\<close> statement\<close>
  | Commit
  | Create string ndarray real string  \<comment> \<open>\<^verbatim>\<open>kokoro.create(text, voice, speed, lang)\<close>\<close>
  | WriteWav string audio
  | Close

text \<open>
  The collaborators are parameters: the storage engine's evaluation of a query, the
  synthesis engine, Python's \<^verbatim>\<open>float(x)\<close> and \<^verbatim>\<open>f"{factor:.2f}"\<close>, and the value of
  \<^verbatim>\<open>CURRENT_TIMESTAMP\<close>.
\<close>

record env =
  execute :: sql_engine
  kokoro_create :: "string \<Rightarrow> ndarray \<Rightarrow> real \<Rightarrow> string \<Rightarrow> error + audio"
  py_float :: "string \<Rightarrow> real option"
  format_2f :: "real \<Rightarrow> string"
  current_timestamp :: nat

definition path_join :: "string \<Rightarrow> string \<Rightarrow> string" where
  "path_join dir file = dir @ ''/'' @ file"

text \<open>
  A plain \<^verbatim>\<open>INSERT\<close>: the primary key \<open>name\<close> must be new, else the statement fails with
  \<^verbatim>\<open>sqlite3.IntegrityError\<close> and changes nothing.
\<close>

definition sql_insert :: "voice_row list \<Rightarrow> voice_row \<Rightarrow> error + voice_row list" where
  "sql_insert tbl r =
     (if name r \<in> set (map name tbl)
      then Inl (IntegrityError ''UNIQUE constraint failed: voices.name'')
      else Inr (tbl @ [r]))"

text \<open>The branch \<^verbatim>\<open>if args.insert is not None\<close> of \<^verbatim>\<open>main\<close>.\<close>

definition insert_voice ::
  "env \<Rightarrow> args \<Rightarrow> connection \<Rightarrow> ndarray \<Rightarrow> ndarray \<Rightarrow> insertion
     \<Rightarrow> (error + unit) \<times> connection \<times> event list" where
  "insert_voice env a conn source_style target_style ins =
     (case ins of (factor, nm, gd, ql) \<Rightarrow>
     (case interpolate_styles source_style target_style factor of
        Inl e \<Rightarrow> (Inl e, conn, [])
      | Inr interpolated_style \<Rightarrow>
          let row = \<lparr>name = nm, gender = gd, language = args_lang a, quality = ql,
                     training_duration = None, style_vector = interpolated_style,
                     is_synthetic = True, row_notes = args_notes a,
                     created_at = current_timestamp env\<rparr>
          in (case sql_insert (table conn) row of
                Inl e \<Rightarrow> (Inl e, conn, [Insert row])
              | Inr tbl \<Rightarrow>
                  let conn' = commit (conn\<lparr>table := tbl\<rparr>);
                      call = Create (args_text a) interpolated_style (args_speed a) (args_lang a)
                  in (case kokoro_create env (args_text a) interpolated_style (args_speed a) (args_lang a) of
                        Inl e \<Rightarrow> (Inl e, conn', [Insert row, Commit, call])
                      | Inr samples \<Rightarrow>
                          let output_file = path_join (args_output_dir a) (nm @ ''.wav'')
                          in (Inr (), conn', [Insert row, Commit, call, WriteWav output_file samples])))))"

text \<open>
  The other branch: \<^verbatim>\<open>ranges = [float(x) for x in args.ranges.split(',')]\<close>, then one
  sample per factor.
\<close>

fun floats :: "(string \<Rightarrow> real option) \<Rightarrow> string list \<Rightarrow> error + real list" where
  "floats f [] = Inr []"
| "floats f (x # xs) =
     (case f x of
        None \<Rightarrow> Inl (ValueError (''could not convert string to float: '' @ x))
      | Some r \<Rightarrow> (case floats f xs of Inl e \<Rightarrow> Inl e | Inr rs \<Rightarrow> Inr (r # rs)))"

fun sample_loop ::
  "env \<Rightarrow> args \<Rightarrow> ndarray \<Rightarrow> ndarray \<Rightarrow> real list \<Rightarrow> (error + unit) \<times> event list" where
  "sample_loop env a source_style target_style [] = (Inr (), [])"
| "sample_loop env a source_style target_style (factor # rest) =
     (case interpolate_styles source_style target_style factor of
        Inl e \<Rightarrow> (Inl e, [])
      | Inr interpolated_style \<Rightarrow>
          let call = Create (args_text a) interpolated_style (args_speed a) (args_lang a)
          in (case kokoro_create env (args_text a) interpolated_style (args_speed a) (args_lang a) of
                Inl e \<Rightarrow> (Inl e, [call])
              | Inr samples \<Rightarrow>
                  let output_file = path_join (args_output_dir a)
                                      (''interpolation_'' @ format_2f env factor @ ''.wav'')
                  in (case sample_loop env a source_style target_style rest of
                        (r, tr) \<Rightarrow> (r, call # WriteWav output_file samples # tr))))"

definition generate_samples ::
  "env \<Rightarrow> args \<Rightarrow> ndarray \<Rightarrow> ndarray \<Rightarrow> (error + unit) \<times> event list" where
  "generate_samples env a source_style target_style =
     (case floats (py_float env) (split_on CHR '','' (args_ranges a)) of
        Inl e \<Rightarrow> (Inl e, [])
      | Inr ranges \<Rightarrow> sample_loop env a source_style target_style ranges)"

text \<open>The body of the \<^verbatim>\<open>try\<close> block of \<^verbatim>\<open>main\<close>.\<close>

definition main_try ::
  "env \<Rightarrow> args \<Rightarrow> insertion option \<Rightarrow> connection \<Rightarrow> (error + unit) \<times> connection \<times> event list" where
  "main_try env a ins conn =
     (case get_voice_group_vector (execute env) conn (args_source_query a) of
        Inl e \<Rightarrow> (Inl e, conn, [Execute (args_source_query a)])
      | Inr source_style \<Rightarrow>
     (case get_voice_group_vector (execute env) conn (args_target_query a) of
        Inl e \<Rightarrow> (Inl e, conn, [Execute (args_source_query a), Execute (args_target_query a)])
      | Inr target_style \<Rightarrow>
          (case (case ins of
                   Some i \<Rightarrow> insert_voice env a conn source_style target_style i
                 | None \<Rightarrow>
                     (case generate_samples env a source_style target_style of
                        (r, tr) \<Rightarrow> (r, conn, tr))) of
             (r, conn', tr) \<Rightarrow>
               (r, conn',
                [Execute (args_source_query a), Execute (args_target_query a), LoadKokoro] @ tr))))"

text \<open>
  \<^verbatim>\<open>main\<close>: parse and validate the arguments, create the output directory, connect, run
  the \<^verbatim>\<open>try\<close> block, and close the connection in \<^verbatim>\<open>finally\<close>. The result is the
  exception that ended the run (or \<open>Inr ()\<close>), the table as committed to the database
  file afterwards, and the events in order. Creating the directory, opening the database
  file, loading the synthesis model and writing audio files are taken to succeed.
\<close>

definition main :: "env \<Rightarrow> argv \<Rightarrow> voice_row list \<Rightarrow> (error + unit) \<times> voice_row list \<times> event list" where
  "main env argv db =
     (case parse_args argv of
        Inl e \<Rightarrow> (Inl e, db, [])
      | Inr a \<Rightarrow>
          (case validate_insert a of
             Inl e \<Rightarrow> (Inl e, db, [])
           | Inr ins \<Rightarrow>
               (case main_try env a ins (connect db) of
                  (r, conn, tr) \<Rightarrow>
                    (r, disk conn,
                     [MkDir (args_output_dir a), Connect (args_db_path a)] @ tr @ [Close]))))"

subsection \<open>Bulk load (\<^verbatim>\<open>scripts/create_voice_db.py\<close>)\<close>

text \<open>
  One entry of the manifest's \<^verbatim>\<open>voices\<close> list is a JSON object. Each key the loader reads
  is absent, \<^verbatim>\<open>null\<close>, or holds a value of the column's type (a JSON value of another
  type is outside the model).
\<close>

datatype 'a field = Missing | Null | Val 'a

record voice =
  voice_name :: "string field"
  voice_gender :: "string field"
  voice_language :: "string field"
  voice_quality :: "int field"
  voice_training_duration :: "string field"
  voice_is_synthetic :: "bool field"
  voice_notes :: "string field"

text \<open>\<^verbatim>\<open>voice[key]\<close> raises \<^verbatim>\<open>KeyError\<close> for an absent key; \<^verbatim>\<open>voice.get(key)\<close> does not.\<close>

definition getitem :: "string \<Rightarrow> 'a field \<Rightarrow> error + 'a option" where
  "getitem key f =
     (case f of Missing \<Rightarrow> Inl (KeyError key) | Null \<Rightarrow> Inr None | Val v \<Rightarrow> Inr (Some v))"

definition get :: "'a field \<Rightarrow> 'a option" where
  "get f = (case f of Missing \<Rightarrow> None | Null \<Rightarrow> None | Val v \<Rightarrow> Some v)"

definition get_default :: "'a field \<Rightarrow> 'a \<Rightarrow> 'a option" where
  "get_default f d = (case f of Missing \<Rightarrow> Some d | Null \<Rightarrow> None | Val v \<Rightarrow> Some v)"

text \<open>
  \<^verbatim>\<open>kokoro.get_voice_style(name)\<close> looks the name up in the archive of voices, a parameter
  of the model; no archive entry is named \<^verbatim>\<open>None\<close>.
\<close>

type_synonym kokoro = "string \<Rightarrow> error + ndarray"

definition get_voice_style :: "kokoro \<Rightarrow> string option \<Rightarrow> error + ndarray" where
  "get_voice_style kokoro nm =
     (case nm of None \<Rightarrow> Inl (KeyError ''None'') | Some n \<Rightarrow> kokoro n)"

text \<open>
  \<^verbatim>\<open>INSERT OR REPLACE INTO voices (name, gender, language, quality, training_duration,
  style_vector, is_synthetic, notes) VALUES (?, ?, ?, ?, ?, ?, ?, ?)\<close>.
  A \<^verbatim>\<open>NULL\<close> in a \<^verbatim>\<open>NOT NULL\<close> column without a default aborts the statement with
  \<^verbatim>\<open>IntegrityError\<close>; in \<open>is_synthetic\<close>, which has a default, \<^verbatim>\<open>OR REPLACE\<close> stores the
  default 0. A row with the same \<open>name\<close> is deleted before the new row is added.
  \<open>created_at\<close> takes its default, the current time.
\<close>

definition not_null :: "string \<Rightarrow> 'a option \<Rightarrow> error + 'a" where
  "not_null column v =
     (case v of
        None \<Rightarrow> Inl (IntegrityError (''NOT NULL constraint failed: voices.'' @ column))
      | Some x \<Rightarrow> Inr x)"

definition sql_insert_or_replace ::
  "nat \<Rightarrow> voice_row list \<Rightarrow> string \<Rightarrow> string option \<Rightarrow> string option \<Rightarrow> int option
     \<Rightarrow> string option \<Rightarrow> ndarray \<Rightarrow> bool option \<Rightarrow> string option \<Rightarrow> error + voice_row list" where
  "sql_insert_or_replace now tbl nm gd lg ql td sv syn nt =
     (case not_null ''gender'' gd of Inl e \<Rightarrow> Inl e | Inr g \<Rightarrow>
     (case not_null ''language'' lg of Inl e \<Rightarrow> Inl e | Inr l \<Rightarrow>
     (case not_null ''quality'' ql of Inl e \<Rightarrow> Inl e | Inr q \<Rightarrow>
        Inr (filter (\<lambda>r. name r \<noteq> nm) tbl @
             [\<lparr>name = nm, gender = g, language = l, quality = q, training_duration = td,
               style_vector = sv, is_synthetic = default False syn, row_notes = nt,
               created_at = now\<rparr>]))))"

text \<open>
  The body of the \<^verbatim>\<open>try\<close> block for one entry (where the statement is reached the name
  is a string: \<open>get_voice_style\<close> has raised for \<^verbatim>\<open>None\<close>):
  \<^verbatim>\<open>
  style_vector = kokoro.get_voice_style(voice['name'])
  cursor.execute('INSERT OR REPLACE ...', (voice['name'], voice['gender'],
      voice['language'], voice['quality'], voice.get('training_duration'),
      style_vector, voice.get('is_synthetic', False), voice.get('notes')))
  \<close>
\<close>

definition insert_entry :: "kokoro \<Rightarrow> nat \<Rightarrow> voice_row list \<Rightarrow> voice \<Rightarrow> error + voice_row list" where
  "insert_entry kokoro now tbl v =
     (case getitem ''name'' (voice_name v) of Inl e \<Rightarrow> Inl e | Inr nm \<Rightarrow>
     (case get_voice_style kokoro nm of Inl e \<Rightarrow> Inl e | Inr style \<Rightarrow>
     (case getitem ''gender'' (voice_gender v) of Inl e \<Rightarrow> Inl e | Inr gd \<Rightarrow>
     (case getitem ''language'' (voice_language v) of Inl e \<Rightarrow> Inl e | Inr lg \<Rightarrow>
     (case getitem ''quality'' (voice_quality v) of Inl e \<Rightarrow> Inl e | Inr ql \<Rightarrow>
        sql_insert_or_replace now tbl (default [] nm) gd lg ql
          (get (voice_training_duration v)) style
          (get_default (voice_is_synthetic v) False) (get (voice_notes v)))))))"

text \<open>
  The loop of \<^verbatim>\<open>populate_database\<close>. The handler
  \<^verbatim>\<open>except Exception as e: print(f"Error processing voice {voice['name']}: {e}")\<close>
  reads \<^verbatim>\<open>voice['name']\<close> itself: when that raises, the exception leaves the loop.
  The result is the exception that left the loop, if any, and the table at that moment.
\<close>

fun populate_loop :: "kokoro \<Rightarrow> nat \<Rightarrow> voice_row list \<Rightarrow> voice list \<Rightarrow> (error + unit) \<times> voice_row list" where
  "populate_loop kokoro now tbl [] = (Inr (), tbl)"
| "populate_loop kokoro now tbl (v # vs) =
     (case insert_entry kokoro now tbl v of
        Inr tbl' \<Rightarrow> populate_loop kokoro now tbl' vs
      | Inl e \<Rightarrow>
          (case getitem ''name'' (voice_name v) of
             Inl e' \<Rightarrow> (Inl e', tbl)
           | Inr _ \<Rightarrow> populate_loop kokoro now tbl vs))"

text \<open>
  \<^verbatim>\<open>populate_database(conn, voice_data, kokoro)\<close>: the loop over
  \<^verbatim>\<open>voice_data['voices']\<close> (\<open>None\<close>: the manifest has no such key), then
  \<^verbatim>\<open>conn.commit()\<close>.
\<close>

definition populate_database ::
  "nat \<Rightarrow> connection \<Rightarrow> voice list option \<Rightarrow> kokoro \<Rightarrow> (error + unit) \<times> connection" where
  "populate_database now conn voice_data kokoro =
     (case voice_data of
        None \<Rightarrow> (Inl (KeyError ''voices''), conn)
      | Some voices \<Rightarrow>
          (case populate_loop kokoro now (table conn) voices of
             (Inl e, tbl) \<Rightarrow> (Inl e, conn\<lparr>table := tbl\<rparr>)
           | (Inr _, tbl) \<Rightarrow> (Inr (), commit (conn\<lparr>table := tbl\<rparr>))))"

subsection \<open>Bulk export (\<^verbatim>\<open>scripts/export_voice.py\<close>)\<close>

text \<open>
  \<^verbatim>\<open>
  def export_all_voices(conn, output_file):
      cursor.execute("SELECT name, style_vector FROM voices")
      voices = cursor.fetchall()
      if not voices:
          raise ValueError("No voices found in database")
      voice_dict = {name: style_vector for name, style_vector in voices}
      with open(output_file, "wb") as f:
          np.savez(f, **voice_dict)
  \<close>
  The file system maps a path to the archive written there, an archive being the
  dictionary of named arrays in insertion order.
\<close>

type_synonym archive = "(string \<times> ndarray) list"
type_synonym files = "string \<Rightarrow> archive option"

fun dict_set :: "(string \<times> 'v) list \<Rightarrow> string \<Rightarrow> 'v \<Rightarrow> (string \<times> 'v) list" where
  "dict_set [] k v = [(k, v)]"
| "dict_set ((k', v') # d) k v = (if k' = k then (k, v) # d else (k', v') # dict_set d k v)"

definition dict_of :: "(string \<times> 'v) list \<Rightarrow> (string \<times> 'v) list" where
  "dict_of pairs = foldl (\<lambda>d (k, v). dict_set d k v) [] pairs"

definition export_all_voices :: "connection \<Rightarrow> string \<Rightarrow> files \<Rightarrow> (error + unit) \<times> files" where
  "export_all_voices conn output_file fs =
     (let voices = map (\<lambda>r. (name r, style_vector r)) (table conn)
      in if voices = [] then (Inl (ValueError ''No voices found in database''), fs)
         else
           let voice_dict = dict_of voices
           in (Inr (), fs(output_file \<mapsto> voice_dict)))"

subsection \<open>A small catalog for concrete runs\<close>

text \<open>
  A toy storage engine whose query text is a gender, two male voices and one female
  voice, and collaborators that always succeed.
\<close>

definition example_engine :: sql_engine where
  "example_engine query tbl = Inr (filter (\<lambda>r. gender r = query) tbl)"

definition example_env :: env where
  "example_env =
     \<lparr>execute = example_engine,
      kokoro_create = (\<lambda>txt voice speed lang. Inr ([], 24000)),
      py_float = (\<lambda>x. if x = ''0'' then Some 0 else None),
      format_2f = (\<lambda>x. ''0.00''),
      current_timestamp = 7\<rparr>"

definition voice_A :: voice_row where
  "voice_A = \<lparr>name = ''A'', gender = ''M'', language = ''en-us'', quality = 90,
              training_duration = None, style_vector = [1, 0], is_synthetic = False,
              row_notes = None, created_at = 1\<rparr>"

definition voice_B :: voice_row where
  "voice_B = \<lparr>name = ''B'', gender = ''M'', language = ''en-gb'', quality = 80,
              training_duration = Some ''HH'', style_vector = [0, 1], is_synthetic = False,
              row_notes = None, created_at = 2\<rparr>"

definition voice_C :: voice_row where
  "voice_C = \<lparr>name = ''C'', gender = ''F'', language = ''en-us'', quality = 70,
              training_duration = None, style_vector = [1, 1], is_synthetic = False,
              row_notes = None, created_at = 3\<rparr>"

definition example_db :: "voice_row list" where
  "example_db = [voice_A, voice_B, voice_C]"

definition example_argv :: argv where
  "example_argv =
     \<lparr>opt_source_query = Some ''M'', opt_target_query = Some ''F'', opt_text = None,
      opt_ranges = None, opt_speed = None, opt_lang = None, opt_output_dir = None,
      opt_db_path = None, opt_insert = Some 1, opt_name = Some ''D'', opt_gender = Some ''X'',
      opt_quality = Some 50, opt_notes = None\<rparr>"

definition example_kokoro :: kokoro where
  "example_kokoro n = (if n = ''A'' then Inr [5, 5] else if n = ''E'' then Inr [2, 3]
                       else Inl (KeyError n))"

definition example_voice :: "string field \<Rightarrow> voice" where
  "example_voice n =
     \<lparr>voice_name = n, voice_gender = Val ''F'', voice_language = Val ''en-us'',
      voice_quality = Val 60, voice_training_duration = Missing,
      voice_is_synthetic = Missing, voice_notes = Null\<rparr>"

definition voice_D :: voice_row where
  "voice_D = \<lparr>name = ''D'', gender = ''X'', language = ''en-us'', quality = 50,
              training_duration = None, style_vector = [1, 1], is_synthetic = True,
              row_notes = None, created_at = 7\<rparr>"

definition example_args :: args where
  "example_args =
     \<lparr>args_source_query = ''M'', args_target_query = ''F'', args_text = ''Hello, world!'',
      args_ranges = ''-2,-1,-0.5,0,0.5,1,2'', args_speed = 1, args_lang = ''en-us'',
      args_output_dir = ''output'', args_db_path = ''voices.db'', args_insert = Some 1,
      args_name = Some ''D'', args_gender = Some ''X'', args_quality = Some 50,
      args_notes = None\<rparr>"

definition voice_A' :: voice_row where
  "voice_A' = \<lparr>name = ''A'', gender = ''F'', language = ''en-us'', quality = 60,
               training_duration = None, style_vector = [5, 5], is_synthetic = False,
               row_notes = None, created_at = 9\<rparr>"

definition voice_E :: voice_row where
  "voice_E = \<lparr>name = ''E'', gender = ''F'', language = ''en-us'', quality = 60,
              training_duration = None, style_vector = [2, 3], is_synthetic = False,
              row_notes = None, created_at = 9\<rparr>"

definition example_array :: npy_array where
  "example_array = \<lparr>shape = [2], elements = Float32 [0x3F800000, 0xBF000000]\<rparr>"

text \<open>
  For stating what the loop of \<^verbatim>\<open>populate_database\<close> leaves behind: one entry, with a
  failure skipped.
\<close>

definition skip_failed :: "kokoro \<Rightarrow> nat \<Rightarrow> voice_row list \<Rightarrow> voice \<Rightarrow> voice_row list" where
  "skip_failed kokoro now tbl v =
     (case insert_entry kokoro now tbl v of Inl e \<Rightarrow> tbl | Inr tbl' \<Rightarrow> tbl')"

section \<open>Properties\<close>

subsection \<open>Interpolation engine (claim C1)\<close>

lemma map2_map2_same:
  "length xs = length ys \<Longrightarrow>
   map2 h (map2 f xs ys) (map2 g xs ys) = map2 (\<lambda>x y. h (f x y) (g x y)) xs ys"
  by (induction xs ys rule: list_induct2) simp_all

lemma map2_fst_id: "length xs = length ys \<Longrightarrow> map2 (\<lambda>x y. x) xs ys = xs"
  by (induction xs ys rule: list_induct2) simp_all

lemma map2_snd_id: "length xs = length ys \<Longrightarrow> map2 (\<lambda>x y. y) xs ys = ys"
  by (induction xs ys rule: list_induct2) simp_all

lemma rne_shift_exact: "n mod 2 ^ sh = 0 \<Longrightarrow> rne_shift n sh = n div 2 ^ sh"
  by (simp add: rne_shift_def)

lemma div_mult_exact: "(n :: int) mod d = 0 \<Longrightarrow> n div d * d = n"
  by (simp add: mod_0_imp_dvd)

lemma round_to_representable: "representable k \<Longrightarrow> round_to k 0 = Finite k"
  by (simp add: representable_def round_to_def rne_shift_exact div_mult_exact Let_def)

lemma dvd_pow2_max:
  assumes "(k :: int) mod 2 ^ a = 0" and "k mod 2 ^ b = 0"
  shows "k mod 2 ^ max a b = 0"
  using assms by (simp add: max_def)

lemma half_exact:
  assumes "representable n" and "even n"
  shows "round_to n 1 = Finite (n div 2)"
proof -
  define sh where "sh = max 1 (nat (bitlen \<bar>n\<bar> - 24))"
  have "n mod 2 ^ nat (bitlen \<bar>n\<bar> - 24) = 0" "n mod 2 ^ 1 = 0"
    using assms by (simp_all add: representable_def)
  then have d: "n mod 2 ^ sh = 0"
    unfolding sh_def by (rule dvd_pow2_max [rotated])
  have sh: "sh = Suc (sh - 1)" by (simp add: sh_def)
  obtain c where c: "n = c * 2 ^ sh" using d by (metis dvd_div_mult_self mod_0_imp_dvd)
  have p: "(2 :: int) ^ sh = 2 ^ (sh - 1) * 2"
    by (subst sh) simp
  have h: "n div 2 = c * 2 ^ (sh - 1)"
    unfolding c p by simp
  have "rne_shift n sh = c"
    using d by (simp add: rne_shift_exact c)
  then have "rne_shift n sh * 2 ^ (sh - 1) = n div 2"
    by (simp add: h)
  moreover have "\<bar>n div 2\<bar> < overflow"
    using assms(1) by (simp add: representable_def) linarith
  moreover have "round_to n 1 =
      (if overflow \<le> \<bar>rne_shift n sh * 2 ^ (sh - 1)\<bar> then Infinity (0 < n)
       else Finite (rne_shift n sh * 2 ^ (sh - 1)))"
    unfolding round_to_def Let_def sh_def by (rule refl)
  ultimately show ?thesis by simp
qed

lemma overflow_pos: "0 < overflow"
  by (simp add: overflow_def)

lemma representable_0: "representable 0"
  by (simp add: representable_def overflow_pos)

lemma representable_minus: "representable (- k) = representable k"
  by (simp add: representable_def mod_eq_0_iff_dvd)

lemma shift_scaled:
  assumes "d \<noteq> 0"
  shows "max j (nat (bitlen \<bar>d * 2 ^ j\<bar> - 24)) = j + nat (bitlen \<bar>d\<bar> - 24)"
proof -
  have "\<bar>d * 2 ^ j\<bar> = \<bar>d\<bar> * 2 ^ j" by (simp add: abs_mult)
  moreover have "bitlen (\<bar>d\<bar> * 2 ^ j) = bitlen \<bar>d\<bar> + int j"
    using assms by simp
  ultimately have "bitlen \<bar>d * 2 ^ j\<bar> = bitlen \<bar>d\<bar> + int j" by simp
  then show ?thesis
    using bitlen_nonneg [of "\<bar>d\<bar>"] by (simp add: max_def) linarith
qed

lemma round_to_scaled:
  assumes "representable d"
  shows "round_to (d * 2 ^ j) j = Finite d"
proof (cases "d = 0")
  case True
  then show ?thesis
    using overflow_pos by (simp add: round_to_def rne_shift_def Let_def)
next
  case False
  define s0 where "s0 = nat (bitlen \<bar>d\<bar> - 24)"
  have sh: "max j (nat (bitlen \<bar>d * 2 ^ j\<bar> - 24)) = j + s0"
    unfolding s0_def using False by (rule shift_scaled)
  have "d mod 2 ^ s0 = 0" using assms by (simp add: representable_def s0_def)
  then obtain c where c: "d = c * 2 ^ s0" by (metis dvd_div_mult_self mod_0_imp_dvd)
  have n: "d * 2 ^ j = c * 2 ^ (j + s0)"
    by (simp add: c power_add mult.assoc mult.commute)
  have "rne_shift (d * 2 ^ j) (j + s0) = c"
    unfolding n by (simp add: rne_shift_exact)
  then have k: "rne_shift (d * 2 ^ j) (j + s0) * 2 ^ (j + s0 - j) = d"
    by (simp add: c)
  have "round_to (d * 2 ^ j) j =
      (if overflow \<le> \<bar>rne_shift (d * 2 ^ j) (j + s0) * 2 ^ (j + s0 - j)\<bar>
       then Infinity (0 < d * 2 ^ j)
       else Finite (rne_shift (d * 2 ^ j) (j + s0) * 2 ^ (j + s0 - j)))"
    unfolding round_to_def Let_def sh by (rule refl)
  then show ?thesis
    unfolding k using assms by (simp add: representable_def)
qed

lemma rne_shift_bound:
  assumes "\<bar>n\<bar> < 2 ^ (sh + w)"
  shows "\<bar>rne_shift n sh\<bar> \<le> 2 ^ w"
proof -
  have p: "(2 :: int) ^ (sh + w) = 2 ^ w * 2 ^ sh" by (simp add: power_add)
  have "n < 2 ^ w * 2 ^ sh" "- (2 ^ w * 2 ^ sh) \<le> n"
    using assms unfolding p by linarith+
  have "(- (2 ^ w)) * 2 ^ sh div 2 ^ sh = - ((2 :: int) ^ w)"
    by (rule nonzero_mult_div_cancel_right) simp
  moreover have "(- (2 ^ w)) * 2 ^ sh div 2 ^ sh \<le> n div 2 ^ sh"
    using \<open>- (2 ^ w * 2 ^ sh) \<le> n\<close> by (intro zdiv_mono1) simp_all
  ultimately have lo: "- (2 ^ w) \<le> n div 2 ^ sh"
    by simp
  have hi: "n div 2 ^ sh < 2 ^ w"
  proof (rule ccontr)
    assume "\<not> n div 2 ^ sh < 2 ^ w"
    then have "2 ^ w * 2 ^ sh \<le> n div 2 ^ sh * 2 ^ sh"
      by (simp add: mult_right_mono)
    moreover have "n div 2 ^ sh * 2 ^ sh \<le> n"
    proof -
      have "0 \<le> n mod 2 ^ sh" by simp
      then show ?thesis using div_mult_mod_eq [of n "2 ^ sh"] by linarith
    qed
    ultimately show False using \<open>n < 2 ^ w * 2 ^ sh\<close> by linarith
  qed
  note q = hi lo
  show ?thesis
    using q by (auto simp: rne_shift_def Let_def)
qed

lemma scaled_representable:
  assumes "\<bar>q\<bar> \<le> 2 ^ 24"
  shows "(q * 2 ^ d) mod 2 ^ nat (bitlen \<bar>q * 2 ^ d\<bar> - 24) = 0"
proof (cases "q = 0")
  case True
  then show ?thesis by simp
next
  case False
  have "\<bar>q * 2 ^ d\<bar> = \<bar>q\<bar> * 2 ^ d" by (simp add: abs_mult)
  moreover have "bitlen (\<bar>q\<bar> * 2 ^ d) = bitlen \<bar>q\<bar> + int d"
    using False by simp
  ultimately have bl: "bitlen \<bar>q * 2 ^ d\<bar> = bitlen \<bar>q\<bar> + int d" by simp
  have dv: "2 ^ nat (bitlen \<bar>q\<bar> - 24) dvd q"
  proof (cases "bitlen \<bar>q\<bar> \<le> 24")
    case True
    then show ?thesis by simp
  next
    case b: False
    have "\<bar>q\<bar> < 2 ^ nat 25" using assms by simp
    then have "bitlen \<bar>q\<bar> \<le> 25" by (simp add: bitlen_le_iff_power)
    with b have e: "bitlen \<bar>q\<bar> = 25" by simp
    then have "25 \<le> bitlen \<bar>q\<bar>" by simp
    then have "2 ^ (nat 25 - 1) \<le> \<bar>q\<bar>" unfolding bitlen_ge_iff_power by simp
    then have "\<bar>q\<bar> = 2 ^ 24" using assms by simp
    then have "q = 2 ^ 24 \<or> q = - (2 ^ 24)" by linarith
    then have "2 dvd q" by auto
    then show ?thesis by (simp add: e)
  qed
  have "nat (bitlen \<bar>q\<bar> + int d - 24) \<le> nat (bitlen \<bar>q\<bar> - 24) + d"
    by linarith
  then have "(2 :: int) ^ nat (bitlen \<bar>q\<bar> + int d - 24) dvd 2 ^ (nat (bitlen \<bar>q\<bar> - 24) + d)"
    by (rule le_imp_power_dvd)
  moreover have "2 ^ (nat (bitlen \<bar>q\<bar> - 24) + d) dvd q * 2 ^ d"
    using dv by (simp add: power_add mult_dvd_mono)
  ultimately have "2 ^ nat (bitlen \<bar>q\<bar> + int d - 24) dvd q * 2 ^ d"
    by (rule dvd_trans)
  then show ?thesis unfolding bl by (simp add: mod_eq_0_iff_dvd)
qed

lemma round_to_result_representable:
  assumes "round_to n j = Finite k"
  shows "representable k"
proof -
  define sh where "sh = max j (nat (bitlen \<bar>n\<bar> - 24))"
  define q where "q = rne_shift n sh"
  have r: "round_to n j =
      (if overflow \<le> \<bar>q * 2 ^ (sh - j)\<bar> then Infinity (0 < n) else Finite (q * 2 ^ (sh - j)))"
    unfolding round_to_def Let_def sh_def q_def by (rule refl)
  from assms have k: "k = q * 2 ^ (sh - j)" and o: "\<bar>k\<bar> < overflow"
    unfolding r by (simp_all split: if_splits)
  have "\<bar>n\<bar> < 2 ^ (sh + 24)"
  proof (cases "n = 0")
    case True
    then show ?thesis by simp
  next
    case False
    then have "\<bar>n\<bar> < 2 ^ nat (bitlen \<bar>n\<bar>)"
      using bitlen_bounds [of "\<bar>n\<bar>"] by simp
    moreover have "nat (bitlen \<bar>n\<bar>) \<le> sh + 24"
      unfolding sh_def by linarith
    then have "(2 :: int) ^ nat (bitlen \<bar>n\<bar>) \<le> 2 ^ (sh + 24)"
      by (intro power_increasing) simp_all
    ultimately show ?thesis by linarith
  qed
  then have "\<bar>q\<bar> \<le> 2 ^ 24"
    unfolding q_def by (rule rne_shift_bound)
  then have "k mod 2 ^ nat (bitlen \<bar>k\<bar> - 24) = 0"
    unfolding k by (rule scaled_representable)
  with o show ?thesis by (simp add: representable_def)
qed

lemma round_to_0: "round_to 0 j = Finite 0"
  using overflow_pos by (simp add: round_to_def rne_shift_def Let_def)

lemma fadd_zero_right:
  assumes "x = fhalf y"
  shows "fadd x (Finite 0) = x"
proof (cases x)
  case (Finite k)
  with assms obtain n j where "round_to n j = Finite k"
    by (cases y) auto
  then have "representable k" by (rule round_to_result_representable)
  then show ?thesis using Finite by (simp add: round_to_representable)
qed simp_all

lemma interpolate_zero:
  assumes "difference_finite s t"
  shows "fadd (fhalf (fadd s t)) (fhalf (fmul (fsub t s) (Finite 0))) = fhalf (fadd s t)"
proof -
  from assms obtain d where d: "fsub t s = Finite d"
    unfolding difference_finite_def by (cases "fsub t s") simp_all
  have "fhalf (fmul (fsub t s) (Finite 0)) = Finite 0"
    unfolding d by (simp add: round_to_0)
  then show ?thesis by (simp add: fadd_zero_right)
qed

lemma interpolate_unit:
  assumes "exact_pair s t"
  shows "fadd (fhalf (fadd s t)) (fhalf (fmul (fsub t s) (dyadic 1 0))) = t"
    and "fadd (fhalf (fadd s t)) (fhalf (fmul (fsub t s) (dyadic (- 1) 0))) = s"
proof -
  from assms obtain a b where s: "s = Finite a" and t: "t = Finite b"
    by (cases s; cases t) simp_all
  from assms have ra: "representable a" and rb: "representable b"
    and rs: "representable (a + b)" and rd: "representable (b - a)" and ev: "even (a + b)"
    unfolding s t by simp_all
  have ev': "even (b - a)" "even (a - b)" using ev by simp_all
  have rd': "representable (a - b)" using rd representable_minus [of "b - a"] by simp
  have "fadd s t = Finite (a + b)"
    unfolding s t fadd.simps using rs by (rule round_to_representable)
  then have mid: "fhalf (fadd s t) = Finite ((a + b) div 2)"
    using half_exact [OF rs ev] by (simp only: fhalf.simps)
  have h1: "fhalf (Finite (b - a)) = Finite ((b - a) div 2)"
    using half_exact [OF rd ev'(1)] by (simp only: fhalf.simps)
  have h2: "fhalf (Finite (a - b)) = Finite ((a - b) div 2)"
    using half_exact [OF rd' ev'(2)] by (simp only: fhalf.simps)
  have diff: "fsub t s = Finite (b - a)"
    unfolding s t fsub_def using rd by (simp add: round_to_representable)
  have "(b - a) * (1 * 2 ^ nat (0 + 149)) = (b - a) * 2 ^ 149" by simp
  then have up: "fmul (fsub t s) (dyadic 1 0) = Finite (b - a)"
    unfolding diff dyadic_def fmul.simps using round_to_scaled [OF rd, of 149] by simp
  have "(b - a) * (- 1 * 2 ^ nat (0 + 149)) = (a - b) * 2 ^ 149" by (simp add: algebra_simps)
  then have down: "fmul (fsub t s) (dyadic (- 1) 0) = Finite (a - b)"
    unfolding diff dyadic_def fmul.simps using round_to_scaled [OF rd', of 149] by simp
  have e1: "(a + b) div 2 + (b - a) div 2 = b"
    using ev ev' by (elim evenE) simp
  have e2: "(a + b) div 2 + (a - b) div 2 = a"
    using ev ev' by (elim evenE) simp
  have "fadd (fhalf (fadd s t)) (fhalf (fmul (fsub t s) (dyadic 1 0))) = round_to b 0"
    unfolding mid up h1 fadd.simps e1 by (rule refl)
  also have "\<dots> = t"
    unfolding t using rb by (rule round_to_representable)
  finally show "fadd (fhalf (fadd s t)) (fhalf (fmul (fsub t s) (dyadic 1 0))) = t" .
  have "fadd (fhalf (fadd s t)) (fhalf (fmul (fsub t s) (dyadic (- 1) 0))) = round_to a 0"
    unfolding mid down h2 fadd.simps e2 by (rule refl)
  also have "\<dots> = s"
    unfolding s using ra by (rule round_to_representable)
  finally show "fadd (fhalf (fadd s t)) (fhalf (fmul (fsub t s) (dyadic (- 1) 0))) = s" .
qed

lemma map2_cong_all2:
  "list_all2 P xs ys \<Longrightarrow> (\<And>x y. P x y \<Longrightarrow> f x y = g x y) \<Longrightarrow> map2 f xs ys = map2 g xs ys"
  by (induction xs ys rule: list_all2_induct) simp_all

lemma interpolate_styles_float32_equal_length:
  assumes "length style1 = length style2"
  shows "interpolate_styles_float32 style1 style2 factor =
         Inr (map2 (\<lambda>s t. fadd (fhalf (fadd s t)) (fhalf (fmul (fsub t s) factor)))
                style1 style2)"
proof -
  have d: "np_binop fsub style2 style1 = Inr (map2 (\<lambda>s t. fsub t s) style1 style2)"
    using assms
    by (simp add: np_binop_def zip_commute [of style2 style1] map_prod_def split_def)
  have m: "np_binop fadd style1 style2 = Inr (map2 fadd style1 style2)"
    using assms by (simp add: np_binop_def)
  have mid: "map fhalf (map2 fadd style1 style2) = map2 (\<lambda>s t. fhalf (fadd s t)) style1 style2"
    by (simp add: split_def)
  have off: "map fhalf (np_scalar fmul (map2 (\<lambda>s t. fsub t s) style1 style2) factor)
             = map2 (\<lambda>s t. fhalf (fmul (fsub t s) factor)) style1 style2"
    by (simp add: np_scalar_def split_def)
  show ?thesis
    unfolding interpolate_styles_float32_def d m sum.case Let_def mid off
    using assms
    by (simp add: np_binop_def map2_map2_same)
qed

lemma round_to_is_float32: "is_float32 (round_to n j)"
  by (cases "round_to n j") (simp_all add: round_to_result_representable)

lemma float32_closed:
  "is_float32 (fadd x y)" "is_float32 (fsub x y)" "is_float32 (fmul x y)" "is_float32 (fhalf x)"
proof -
  show a: "is_float32 (fadd x y)" for x y
    by (cases x; cases y) (simp_all add: round_to_is_float32)
  show "is_float32 (fsub x y)"
    unfolding fsub_def by (rule a)
  show "is_float32 (fmul x y)"
    by (cases x; cases y) (simp_all add: round_to_is_float32)
  show "is_float32 (fhalf x)"
    by (cases x) (simp_all add: round_to_is_float32)
qed

text \<open>
  The model over the real numbers and the float32 model fail on the same shapes, with the
  same exception, and return vectors of the same length.
\<close>

lemma interpolate_styles_same_shape:
  assumes "length style1' = length style1" and "length style2' = length style2"
  shows "case interpolate_styles_float32 style1' style2' factor' of
           Inl e \<Rightarrow> interpolate_styles style1 style2 factor = Inl e
         | Inr v \<Rightarrow> (\<exists>w. interpolate_styles style1 style2 factor = Inr w \<and> length w = length v)"
  using assms
  by (simp add: interpolate_styles_float32_def interpolate_styles_def np_binop_def
        np_scalar_def Let_def)

text \<open>
  Claim C1 as stated fails in float32. With source \<open>2**24\<close>, target 1 and factor 1 the
  sum \<open>2**24 + 1\<close> rounds to \<open>2**24\<close>, so the midpoint is \<open>2**23\<close>, the halved difference is
  \<open>- (2**23 - 1 / 2)\<close>, and the result is \<open>1 / 2\<close>, not the target; with the two vectors
  exchanged and factor -1 the result is \<open>1 / 2\<close>, not the source. With source and target
  both the largest float32, \<open>(2**24 - 1) * 2**104\<close>, and factor 0 the sum overflows and the
  result is infinite, not the midpoint.
\<close>

theorem interpolate_styles_float32_rounding_counterexample:
  "length [dyadic 1 24] = length [dyadic 1 0]
   \<and> is_float32 (dyadic 1 24) \<and> is_float32 (dyadic 1 0) \<and> is_float32 (dyadic 16777215 104)
   \<and> interpolate_styles_float32 [dyadic 1 24] [dyadic 1 0] (dyadic 1 0) = Inr [dyadic 1 (- 1)]
   \<and> dyadic 1 (- 1) \<noteq> dyadic 1 0
   \<and> interpolate_styles_float32 [dyadic 1 0] [dyadic 1 24] (dyadic (- 1) 0) = Inr [dyadic 1 (- 1)]
   \<and> interpolate_styles_float32 [dyadic 16777215 104] [dyadic 16777215 104] (Finite 0)
       = Inr [Infinity True]"
  by code_simp

text \<open>
  Claim C1, amended. For two float32 vectors of the same dimension \<open>interpolate_styles\<close>
  returns, element by element, \<open>midpoint + delta * factor / 2\<close> with
  \<open>midpoint = (source + target) / 2\<close> and \<open>delta = target - source\<close>, every operation
  rounded to float32, for every factor: nothing is clamped. With factor 0 the result is
  the computed midpoint, provided no difference of two elements overflows. With factor 1
  the result is exactly the target and with factor -1 exactly the source, provided that
  for each pair of elements the sum and the difference are float32 values and the sum is
  an even multiple of \<open>2**-149\<close>, so that no operation rounds.
\<close>

theorem interpolate_styles_float32_formula:
  assumes "length source = length target"
  shows "interpolate_styles_float32 source target factor =
           Inr (map2 (\<lambda>s t. fadd (fhalf (fadd s t)) (fhalf (fmul (fsub t s) factor)))
                  source target)
       \<and> (list_all2 difference_finite source target \<longrightarrow>
            interpolate_styles_float32 source target (Finite 0) =
              Inr (map2 (\<lambda>s t. fhalf (fadd s t)) source target))
       \<and> (list_all2 exact_pair source target \<longrightarrow>
            interpolate_styles_float32 source target (dyadic 1 0) = Inr target
          \<and> interpolate_styles_float32 source target (dyadic (- 1) 0) = Inr source)"
proof (intro conjI impI)
  show "interpolate_styles_float32 source target factor =
           Inr (map2 (\<lambda>s t. fadd (fhalf (fadd s t)) (fhalf (fmul (fsub t s) factor)))
                  source target)"
    using assms by (rule interpolate_styles_float32_equal_length)
next
  assume "list_all2 difference_finite source target"
  then have "map2 (\<lambda>s t. fadd (fhalf (fadd s t)) (fhalf (fmul (fsub t s) (Finite 0))))
               source target = map2 (\<lambda>s t. fhalf (fadd s t)) source target"
    by (rule map2_cong_all2) (rule interpolate_zero)
  then show "interpolate_styles_float32 source target (Finite 0) =
              Inr (map2 (\<lambda>s t. fhalf (fadd s t)) source target)"
    by (simp add: interpolate_styles_float32_equal_length [OF assms])
next
  assume e: "list_all2 exact_pair source target"
  then have "map2 (\<lambda>s t. fadd (fhalf (fadd s t)) (fhalf (fmul (fsub t s) (dyadic 1 0))))
               source target = map2 (\<lambda>s t. t) source target"
    by (rule map2_cong_all2) (rule interpolate_unit)
  then show "interpolate_styles_float32 source target (dyadic 1 0) = Inr target"
    by (simp add: interpolate_styles_float32_equal_length [OF assms] map2_snd_id [OF assms])
  from e have "map2 (\<lambda>s t. fadd (fhalf (fadd s t)) (fhalf (fmul (fsub t s) (dyadic (- 1) 0))))
               source target = map2 (\<lambda>s t. s) source target"
    by (rule map2_cong_all2) (rule interpolate_unit)
  then show "interpolate_styles_float32 source target (dyadic (- 1) 0) = Inr source"
    by (simp add: interpolate_styles_float32_equal_length [OF assms] map2_fst_id [OF assms])
qed

theorem interpolate_styles_float32_formula_witness:
  "length [dyadic 1 0, dyadic 3 (- 1)] = length [dyadic 3 0, dyadic 1 (- 2)]
   \<and> list_all2 difference_finite [dyadic 1 0, dyadic 3 (- 1)] [dyadic 3 0, dyadic 1 (- 2)]
   \<and> list_all2 exact_pair [dyadic 1 0, dyadic 3 (- 1)] [dyadic 3 0, dyadic 1 (- 2)]
   \<and> interpolate_styles_float32 [dyadic 1 0, dyadic 3 (- 1)] [dyadic 3 0, dyadic 1 (- 2)]
         (dyadic 3 0) = Inr [dyadic 5 0, dyadic (- 1) 0]
   \<and> interpolate_styles_float32 [dyadic 1 0, dyadic 3 (- 1)] [dyadic 3 0, dyadic 1 (- 2)]
         (Finite 0) = Inr [dyadic 2 0, dyadic 7 (- 3)]
   \<and> interpolate_styles_float32 [dyadic 1 0, dyadic 3 (- 1)] [dyadic 3 0, dyadic 1 (- 2)]
         (dyadic 1 0) = Inr [dyadic 3 0, dyadic 1 (- 2)]
   \<and> interpolate_styles_float32 [dyadic 1 0, dyadic 3 (- 1)] [dyadic 3 0, dyadic 1 (- 2)]
         (dyadic (- 1) 0) = Inr [dyadic 1 0, dyadic 3 (- 1)]"
proof -
  have l: "length [dyadic 1 0, dyadic 3 (- 1)] = length [dyadic 3 0, dyadic 1 (- 2)]"
    by simp
  have d: "list_all2 difference_finite [dyadic 1 0, dyadic 3 (- 1)] [dyadic 3 0, dyadic 1 (- 2)]"
    by code_simp
  have e: "list_all2 exact_pair [dyadic 1 0, dyadic 3 (- 1)] [dyadic 3 0, dyadic 1 (- 2)]"
    by code_simp
  have v: "map2 (\<lambda>s t. fadd (fhalf (fadd s t)) (fhalf (fmul (fsub t s) (dyadic 3 0))))
             [dyadic 1 0, dyadic 3 (- 1)] [dyadic 3 0, dyadic 1 (- 2)]
           = [dyadic 5 0, dyadic (- 1) 0]"
    by code_simp
  have m: "map2 (\<lambda>s t. fhalf (fadd s t))
             [dyadic 1 0, dyadic 3 (- 1)] [dyadic 3 0, dyadic 1 (- 2)]
           = [dyadic 2 0, dyadic 7 (- 3)]"
    by code_simp
  show ?thesis
    using interpolate_styles_float32_formula [OF l, of "dyadic 3 0"] d e
    unfolding v m by (intro conjI l d e) simp_all
qed

subsection \<open>Blob codec (claim C2)\<close>

lemma length_le_bytes: "length (le_bytes n k) = n"
  by (induction n arbitrary: k) simp_all

lemma le_value_le_bytes: "le_value (le_bytes n k) = k mod 256 ^ n"
proof (induction n arbitrary: k)
  case 0
  then show ?case by simp
next
  case (Suc n)
  have "unat (word_of_nat (k mod 256) :: byte) = k mod 256"
    by (simp add: unat_of_nat)
  then show ?case
    using Suc [of "k div 256"] by (simp add: mod_mult2_eq)
qed

lemma char_of_byte_of_char: "char_of_byte (byte_of_char c) = c"
proof -
  have "(of_char c :: nat) < 256"
    using of_char_mod_256 [of c, where ?'a = nat]
    by (metis mod_less_divisor zero_less_numeral)
  then have "unat (word_of_nat (of_char c) :: byte) = of_char c"
    by (simp add: unat_of_nat)
  then show ?thesis by (simp add: char_of_byte_def byte_of_char_def)
qed

lemma map_char_of_byte_of_char: "map char_of_byte (map byte_of_char s) = s"
  by (induction s) (simp_all add: char_of_byte_of_char)

lemma of_char_digit: "d < 10 \<Longrightarrow> (of_char (char_of (48 + d :: nat)) :: nat) = 48 + d"
  by simp

lemma is_digit_char_of: "d < 10 \<Longrightarrow> is_digit (char_of (48 + d :: nat))"
  by (simp add: is_digit_def)

lemma repr_nat_digits: "list_all is_digit (repr_nat n)"
proof (induction n rule: repr_nat.induct)
  case (1 n)
  show ?case
  proof (cases "n < 10")
    case True
    then show ?thesis by (subst repr_nat.simps) (simp add: is_digit_char_of)
  next
    case False
    have "n mod 10 < 10" by simp
    then show ?thesis
      using False 1 by (subst repr_nat.simps) (simp add: is_digit_char_of)
  qed
qed

lemma repr_nat_not_Nil: "repr_nat n \<noteq> []"
  by (subst repr_nat.simps) simp

lemma nat_of_digits_snoc:
  "nat_of_digits (s @ [c]) = 10 * nat_of_digits s + (of_char c - 48)"
  by (simp add: nat_of_digits_def)

lemma nat_of_digits_repr_nat: "nat_of_digits (repr_nat n) = n"
proof (induction n rule: repr_nat.induct)
  case (1 n)
  show ?case
  proof (cases "n < 10")
    case True
    then show ?thesis by (subst repr_nat.simps) (simp add: nat_of_digits_def)
  next
    case False
    have "n mod 10 < 10" by simp
    then have "(of_char (char_of (48 + n mod 10)) :: nat) - 48 = n mod 10"
      by simp
    then show ?thesis
      using False 1 by (subst repr_nat.simps) (simp add: nat_of_digits_snoc)
  qed
qed

lemma char_of_48: "char_of (48 :: nat) = CHR ''0''"
proof -
  have "(of_char (char_of (48 :: nat)) :: nat) = of_char (CHR ''0'')" by simp
  then show ?thesis by (simp only: of_char_eq_iff)
qed

lemma char_of_digit_0: "d < 10 \<Longrightarrow> char_of (48 + d :: nat) = CHR ''0'' \<Longrightarrow> d = 0"
proof -
  assume d: "d < 10" and "char_of (48 + d :: nat) = CHR ''0''"
  then have "(of_char (char_of (48 + d :: nat)) :: nat) = of_char (CHR ''0'')" by simp
  then have "(48 + d) mod 256 = 48" by (simp only: of_char_of) simp
  then show "d = 0" using d by simp
qed

lemma repr_nat_0: "repr_nat 0 = ''0''"
  by (subst repr_nat.simps) (simp add: char_of_48)

lemma hd_repr_nat: "hd (repr_nat n) = CHR ''0'' \<Longrightarrow> n = 0"
proof (induction n rule: repr_nat.induct)
  case (1 n)
  show ?case
  proof (cases "n < 10")
    case True
    then have "repr_nat n = [char_of (48 + n)]" by (subst repr_nat.simps) simp
    then have "char_of (48 + n) = CHR ''0''"
      using 1(2) by simp
    then show ?thesis using True char_of_digit_0 by blast
  next
    case False
    then have "repr_nat n = repr_nat (n div 10) @ [char_of (48 + n mod 10)]"
      by (subst repr_nat.simps) simp
    then have "hd (repr_nat (n div 10)) = CHR ''0''"
      using 1(2) repr_nat_not_Nil [of "n div 10"] by simp
    then have "n div 10 = 0" using 1(1) False by simp
    then show ?thesis using False by simp
  qed
qed

lemma parse_int_repr_nat: "parse_int (repr_nat n) = Some n"
proof -
  have "hd (repr_nat n) = CHR ''0'' \<longrightarrow> repr_nat n = ''0''"
    using hd_repr_nat [of n] repr_nat_0 by auto
  then show ?thesis
    unfolding parse_int_def
    by (simp only: repr_nat_digits repr_nat_not_Nil nat_of_digits_repr_nat) simp
qed

lemma length_repr_nat: "0 < k \<Longrightarrow> n < 10 ^ k \<Longrightarrow> length (repr_nat n) \<le> k"
proof (induction n arbitrary: k rule: repr_nat.induct)
  case (1 n)
  show ?case
  proof (cases "n < 10")
    case True
    then show ?thesis using 1(2) by (subst repr_nat.simps) simp
  next
    case False
    then obtain j where k: "k = Suc j" "0 < j"
      using 1(2,3) by (cases k; cases "k - 1") auto
    have "n div 10 < 10 ^ j" using 1(3) k by (simp add: less_mult_imp_div_less mult.commute)
    then have "length (repr_nat (n div 10)) \<le> j" using 1(1) False k by simp
    then show ?thesis using False k by (subst repr_nat.simps) simp
  qed
qed

lemma split_on_no_sep: "c \<notin> set xs \<Longrightarrow> split_on c xs = [xs]"
  by (induction xs) auto

lemma split_on_append: "c \<notin> set xs \<Longrightarrow> split_on c (xs @ c # ys) = xs # split_on c ys"
proof (induction xs)
  case Nil
  then show ?case by simp
next
  case (Cons x xs)
  then show ?case by (cases "split_on c ys") auto
qed

lemma is_digit_not_comma: "is_digit c \<Longrightarrow> c \<noteq> CHR '','' \<and> c \<noteq> CHR '')'' \<and> c \<noteq> CHR '' ''"
  by (auto simp: is_digit_def)

lemma repr_nat_no_sep:
  "CHR '','' \<notin> set (repr_nat n)" "CHR '')'' \<notin> set (repr_nat n)" "CHR '' '' \<notin> set (repr_nat n)"
  using repr_nat_digits [of n] is_digit_not_comma by (auto simp: list_all_iff)

lemma split_on_rest:
  "split_on CHR '','' (repr_nat n @ concat (map (\<lambda>m. '', '' @ repr_nat m) ns))
     = repr_nat n # map (\<lambda>m. '' '' @ repr_nat m) ns"
proof (induction ns arbitrary: n)
  case Nil
  then show ?case by (simp add: split_on_no_sep repr_nat_no_sep)
next
  case (Cons m ns)
  have "split_on CHR '','' (repr_nat n @ CHR '','' # (CHR '' '' # repr_nat m) @ concat (map (\<lambda>m. '', '' @ repr_nat m) ns))
      = repr_nat n # split_on CHR '','' ((CHR '' '' # repr_nat m) @ concat (map (\<lambda>m. '', '' @ repr_nat m) ns))"
    by (rule split_on_append) (rule repr_nat_no_sep)
  moreover have "split_on CHR '','' ((CHR '' '' # repr_nat m) @ concat (map (\<lambda>m. '', '' @ repr_nat m) ns))
      = (CHR '' '' # repr_nat m) # map (\<lambda>m. '' '' @ repr_nat m) ns"
    using Cons [of m] by simp
  ultimately show ?case by simp
qed

lemma those_parse_next: "those (map parse_next (map (\<lambda>m. '' '' @ repr_nat m) ns)) = Some ns"
  by (induction ns) (simp_all add: parse_next_def parse_int_repr_nat)

lemma parse_dims_tuple_body: "parse_dims (tuple_body dims) = Some dims"
proof (cases dims rule: tuple_body.cases)
  case 1
  then show ?thesis by (simp add: parse_dims_def)
next
  case (2 n)
  have "split_on CHR '','' (repr_nat n @ '','') = [repr_nat n, []]"
    using split_on_append [of "CHR '',''" "repr_nat n" "[]"] by (simp add: repr_nat_no_sep)
  then show ?thesis using 2 by (simp add: parse_dims_def parse_int_repr_nat)
next
  case (3 n m ns)
  define ps where "ps = map (\<lambda>m. '' '' @ repr_nat m) ns"
  define p where "p = CHR '' '' # repr_nat m"
  have sp: "split_on CHR '','' (tuple_body dims) = repr_nat n # p # ps"
    using split_on_rest [of n "m # ns"] 3 by (simp add: ps_def p_def)
  have th: "those (map parse_next (p # ps)) = Some (m # ns)"
    using those_parse_next [of "m # ns"] by (simp add: ps_def p_def)
  have "p \<noteq> []" by (simp add: p_def)
  then show ?thesis
    unfolding parse_dims_def sp using th 3 by (simp add: parse_int_repr_nat)
qed

lemma tuple_body_no_paren: "CHR '')'' \<notin> set (tuple_body dims)"
  by (cases dims rule: tuple_body.cases) (auto simp: repr_nat_no_sep)

lemma strip_prefix_append: "strip_prefix p (p @ s) = Some s"
  by (induction p) simp_all

lemma takeWhile_until: "c \<notin> set xs \<Longrightarrow> takeWhile (\<lambda>x. x \<noteq> c) (xs @ c # ys) = xs"
  by (induction xs) auto

lemma dropWhile_until: "c \<notin> set xs \<Longrightarrow> dropWhile (\<lambda>x. x \<noteq> c) (xs @ c # ys) = c # ys"
  by (induction xs) auto

lemma parse_header_written:
  assumes "CHR 0x27 \<notin> set descr" and "list_all (\<lambda>c. c = CHR '' '' \<or> c = CHR 0x0A) tail"
  shows "parse_header (''{'descr': '' @ [CHR 0x27] @ descr @ [CHR 0x27]
            @ '', 'fortran_order': False, 'shape': '' @ repr_tuple dims @ '', }'' @ tail)
         = Inr (descr, False, dims)"
proof -
  have body: "takeWhile (\<lambda>c. c \<noteq> CHR '')'') (tuple_body dims @ CHR '')'' # r) = tuple_body dims"
    "dropWhile (\<lambda>c. c \<noteq> CHR '')'') (tuple_body dims @ CHR '')'' # r) = CHR '')'' # r" for r
    by (simp_all add: takeWhile_until dropWhile_until tuple_body_no_paren)
  have d: "takeWhile (\<lambda>c. c \<noteq> CHR 0x27) (descr @ CHR 0x27 # r) = descr"
    "dropWhile (\<lambda>c. c \<noteq> CHR 0x27) (descr @ CHR 0x27 # r) = CHR 0x27 # r" for r
    using assms(1) by (simp_all add: takeWhile_until dropWhile_until)
  show ?thesis
    using assms(2)
    by (simp add: parse_header_def repr_tuple_def d body parse_dims_tuple_body Let_def)
qed

lemma length_concat_dims:
  "\<forall>d \<in> set ns. length (repr_nat d) \<le> 19 \<Longrightarrow>
   length (concat (map (\<lambda>m. '', '' @ repr_nat m) ns)) \<le> 21 * length ns"
  by (induction ns) auto

lemma length_repr_nat_63: "d < 2 ^ 63 \<Longrightarrow> length (repr_nat d) \<le> 19"
  by (rule length_repr_nat) simp_all

lemma length_tuple_body:
  assumes "\<forall>d \<in> set dims. d < 2 ^ 63"
  shows "length (tuple_body dims) \<le> 21 * length dims"
proof -
  have l: "\<forall>d \<in> set dims. length (repr_nat d) \<le> 19"
    using assms length_repr_nat_63 by blast
  show ?thesis
  proof (cases dims rule: tuple_body.cases)
    case 1
    then show ?thesis by simp
  next
    case (2 n)
    then show ?thesis using l by simp
  next
    case (3 n m ns)
    then have "length (concat (map (\<lambda>m. '', '' @ repr_nat m) (m # ns))) \<le> 21 * length (m # ns)"
      using l by (intro length_concat_dims) simp
    then show ?thesis using 3 l by simp
  qed
qed

lemma length_header_text:
  assumes "length (shape a) \<le> 64" and "\<forall>d \<in> set (shape a). d < 2 ^ 63"
  shows "length (header_text a) \<le> 1500"
proof -
  have "length (tuple_body (shape a)) \<le> 21 * 64"
    using length_tuple_body [OF assms(2)] assms(1) by simp
  moreover have "length (descr_of (elements a)) = 3"
    by (cases "elements a") (simp_all add: descr_of_def)
  moreover have "length (case shape a of [] \<Rightarrow> [] | d # _ \<Rightarrow> replicate (21 - length (repr_nat d)) CHR '' '') \<le> 21"
    by (cases "shape a") simp_all
  ultimately show ?thesis
    by (simp add: header_text_def repr_tuple_def)
qed

lemma read_items_concat:
  "read_items sz (length ks) (concat (map (le_bytes sz) ks) @ rest) = map (\<lambda>k. k mod 256 ^ sz) ks"
  by (induction ks) (simp_all add: length_le_bytes le_value_le_bytes)

lemma word32_of_unat: "word_of_nat (unat w mod 256 ^ 4) = (w :: 32 word)"
proof -
  have "unat w < 2 ^ 32" using unsigned_less [of w] by simp
  then show ?thesis by simp
qed

lemma word64_of_unat: "word_of_nat (unat w mod 256 ^ 8) = (w :: 64 word)"
proof -
  have "unat w < 2 ^ 64" using unsigned_less [of w] by simp
  then show ?thesis by simp
qed

lemma read_elements:
  "map word_of_nat (read_items 4 (length ws) (tobytes (Float32 ws))) = ws"
  "map word_of_nat (read_items 8 (length vs) (tobytes (Float64 vs))) = vs"
proof -
  have "tobytes (Float32 ws) = concat (map (le_bytes 4) (map unat ws)) @ []"
    by (simp add: tobytes_def comp_def)
  then have "read_items 4 (length (map unat ws)) (tobytes (Float32 ws)) = map (\<lambda>k. k mod 256 ^ 4) (map unat ws)"
    by (simp only: read_items_concat)
  then show "map word_of_nat (read_items 4 (length ws) (tobytes (Float32 ws))) = ws"
    using word32_of_unat by (simp add: comp_def map_idI)
  have "tobytes (Float64 vs) = concat (map (le_bytes 8) (map unat vs)) @ []"
    by (simp add: tobytes_def comp_def)
  then have "read_items 8 (length (map unat vs)) (tobytes (Float64 vs)) = map (\<lambda>k. k mod 256 ^ 8) (map unat vs)"
    by (simp only: read_items_concat)
  then show "map word_of_nat (read_items 8 (length vs) (tobytes (Float64 vs))) = vs"
    using word64_of_unat by (simp add: comp_def map_idI)
qed

lemma length_tobytes:
  "length (tobytes (Float32 ws)) = length ws * 4" "length (tobytes (Float64 vs)) = length vs * 8"
  by (induction ws, simp_all add: tobytes_def length_le_bytes)
     (induction vs, simp_all add: length_le_bytes)

lemma read_array_layout:
  assumes L: "length H < 65536" "length H \<le> 10000"
      and P: "parse_header H = Inr (descr, False, dims)"
      and I: "itemsize descr = Some sz"
      and D: "prod_list dims * sz \<le> length D"
  shows "read_array (MAGIC_PREFIX @ [1, 0] @ le_bytes 2 (length H) @ map byte_of_char H @ D)
         = Inr \<lparr>shape = dims,
                 elements = (if sz = 4 then Float32 (map word_of_nat (read_items sz (prod_list dims) D))
                             else Float64 (map word_of_nat (read_items sz (prod_list dims) D)))\<rparr>"
proof -
  define lb where "lb = le_bytes 2 (length H)"
  define hb where "hb = map byte_of_char H"
  have lb: "length lb = 2" "le_value lb = length H"
    using L(1) by (simp_all add: lb_def length_le_bytes le_value_le_bytes)
  have hb: "length hb = length H" "map char_of_byte hb = H"
    unfolding hb_def by (simp, rule map_char_of_byte_of_char)
  have tk: "take 2 (lb @ hb @ D) = lb" "drop 2 (lb @ hb @ D) = hb @ D"
    "take (length H) (hb @ D) = hb" "drop (length H) (hb @ D) = D"
    using lb(1) hb(1) by simp_all
  show ?thesis
    unfolding lb_def [symmetric] hb_def [symmetric]
    using L(2) D
    by (simp add: read_array_def MAGIC_PREFIX_def Let_def tk lb hb P I)
qed

lemma descr_of_itemsize:
  "CHR 0x27 \<notin> set (descr_of e)"
  "itemsize (descr_of (Float32 ws)) = Some 4" "itemsize (descr_of (Float64 vs)) = Some 8"
  by (cases e) (simp_all add: descr_of_def itemsize_def)

text \<open>
  Claim C2. For every array of float32 or float64 elements that satisfies numpy's
  invariants, decoding the encoded blob gives back the array: the same shape, the same
  element type and the same bit pattern for every element. \<open>convert_array\<close> takes the
  blob alone, so shape and element type come from the blob.
\<close>

theorem codec_round_trip:
  assumes "valid_array v"
  shows "convert_array (adapt_array v) = Inr v"
proof -
  define header where "header = header_text v"
  define padlen where "padlen = 64 - ((8 + 2 + (length header + 1)) mod 64)"
  define tail where
    "tail = (case shape v of [] \<Rightarrow> [] | d # _ \<Rightarrow> replicate (21 - length (repr_nat d)) CHR '' '')
              @ replicate padlen CHR '' '' @ [CHR 0x0A]"
  define H where "H = header @ replicate padlen CHR '' '' @ [CHR 0x0A]"
  define D where "D = tobytes (elements v)"
  have v: "length (shape v) \<le> 64" "\<forall>d \<in> set (shape v). d < 2 ^ 63"
    "prod_list (shape v) = count_elements (elements v)"
    using assms by (simp_all add: valid_array_def)
  have "length header \<le> 1500"
    unfolding header_def by (rule length_header_text) (rule v)+
  moreover have "padlen \<le> 64" by (simp add: padlen_def)
  ultimately have L: "length H < 65536" "length H \<le> 10000"
    by (simp_all add: H_def)
  have blank: "list_all (\<lambda>c. c = CHR '' '' \<or> c = CHR 0x0A) tail"
    by (cases "shape v") (auto simp: tail_def list_all_iff)
  have "H = ''{'descr': '' @ [CHR 0x27] @ descr_of (elements v) @ [CHR 0x27]
            @ '', 'fortran_order': False, 'shape': '' @ repr_tuple (shape v) @ '', }'' @ tail"
    by (simp add: H_def header_def header_text_def tail_def)
  then have P: "parse_header H = Inr (descr_of (elements v), False, shape v)"
    using parse_header_written [OF descr_of_itemsize(1) blank] by simp
  have len: "length header + 1 + padlen = length H" by (simp add: H_def)
  have "wrap_header header
          = MAGIC_PREFIX @ [1, 0] @ le_bytes 2 (length header + 1 + padlen) @ map byte_of_char H"
    by (simp only: wrap_header_def Let_def padlen_def H_def)
  then have "wrap_header header = MAGIC_PREFIX @ [1, 0] @ le_bytes 2 (length H) @ map byte_of_char H"
    by (simp only: len)
  then have blob: "adapt_array v = MAGIC_PREFIX @ [1, 0] @ le_bytes 2 (length H) @ map byte_of_char H @ D"
    by (simp add: adapt_array_def header_def [symmetric] D_def)
  have magic: "adapt_array v \<noteq> []" "take 6 (adapt_array v) = MAGIC_PREFIX"
    "take 4 (adapt_array v) \<noteq> map byte_of_char ''PK'' @ [3, 4]"
    "take 4 (adapt_array v) \<noteq> map byte_of_char ''PK'' @ [5, 6]"
    by (simp_all add: blob MAGIC_PREFIX_def byte_of_char_def)
  have conv: "convert_array (adapt_array v) = read_array (adapt_array v)"
    using magic by (simp add: convert_array_def)
  show ?thesis
  proof (cases "elements v")
    case (Float32 ws)
    have "prod_list (shape v) * 4 \<le> length D"
      using v(3) Float32 by (simp add: D_def length_tobytes)
    then have "read_array (adapt_array v)
        = Inr \<lparr>shape = shape v,
                elements = Float32 (map word_of_nat (read_items 4 (prod_list (shape v)) D))\<rparr>"
      unfolding blob
      using read_array_layout [OF L P, of 4 D] Float32 by (simp add: descr_of_itemsize)
    moreover have "map word_of_nat (read_items 4 (prod_list (shape v)) D) = ws"
      using v(3) Float32 read_elements(1) [of ws] by (simp add: D_def)
    ultimately show ?thesis using conv Float32 by simp
  next
    case (Float64 ws)
    have "prod_list (shape v) * 8 \<le> length D"
      using v(3) Float64 by (simp add: D_def length_tobytes)
    then have "read_array (adapt_array v)
        = Inr \<lparr>shape = shape v,
                elements = Float64 (map word_of_nat (read_items 8 (prod_list (shape v)) D))\<rparr>"
      unfolding blob
      using read_array_layout [OF L P, of 8 D] Float64 by (simp add: descr_of_itemsize)
    moreover have "map word_of_nat (read_items 8 (prod_list (shape v)) D) = ws"
      using v(3) Float64 read_elements(2) [of ws] by (simp add: D_def)
    ultimately show ?thesis using conv Float64 by simp
  qed
qed

theorem codec_round_trip_witness:
  "valid_array example_array \<and> convert_array (adapt_array example_array) = Inr example_array"
  using codec_round_trip [of example_array]
  by (simp add: valid_array_def example_array_def)

lemma le_bytes_2: "le_bytes 2 k = [word_of_nat (k mod 256), word_of_nat (k div 256 mod 256)]"
  by (simp add: numeral_2_eq_2)

lemma le_bytes_4:
  "le_bytes 4 k = [word_of_nat (k mod 256), word_of_nat (k div 256 mod 256),
                   word_of_nat (k div 256 div 256 mod 256),
                   word_of_nat (k div 256 div 256 div 256 mod 256)]"
proof -
  have "(4 :: nat) = Suc (Suc (Suc (Suc 0)))" by simp
  then show ?thesis by (simp only: le_bytes.simps)
qed

lemma repr_nat_2: "repr_nat 2 = ''2''"
proof -
  have "(of_char (char_of (50 :: nat)) :: nat) = of_char (CHR ''2'')" by simp
  then have "char_of (50 :: nat) = CHR ''2''" by (simp only: of_char_eq_iff)
  then show ?thesis by (subst repr_nat.simps) simp
qed

lemma example_header: "header_text example_array =
  ''{'descr': '<f4', 'fortran_order': False, 'shape': (2,), }'' @ replicate 20 CHR '' ''"
  by (simp add: header_text_def descr_of_def repr_tuple_def repr_nat_2 example_array_def)

lemma example_blob:
  "adapt_array example_array =
     [147, 78, 85, 77, 80, 89, 1, 0, 118, 0]
     @ map byte_of_char (''{'descr': '<f4', 'fortran_order': False, 'shape': (2,), }''
                          @ replicate 60 CHR '' '' @ [CHR 0x0A])
     @ [0, 0, 128, 63, 0, 0, 0, 191]"
proof -
  have w: "wrap_header (header_text example_array) =
     [147, 78, 85, 77, 80, 89, 1, 0, 118, 0]
     @ map byte_of_char (''{'descr': '<f4', 'fortran_order': False, 'shape': (2,), }''
                          @ replicate 60 CHR '' '' @ [CHR 0x0A])"
    unfolding example_header wrap_header_def Let_def
    by (simp add: le_bytes_2 MAGIC_PREFIX_def byte_of_char_def replicate_add [symmetric])
  have t: "tobytes (elements example_array) = [0, 0, 128, 63, 0, 0, 0, 191]"
    by (simp add: tobytes_def example_array_def le_bytes_4)
  show ?thesis unfolding adapt_array_def w t by simp
qed

subsection \<open>The workflow on the example catalog\<close>

lemmas ex_defs = example_engine_def example_env_def voice_A_def voice_B_def voice_C_def
  example_db_def example_argv_def

lemma parse_args_fields:
  assumes "parse_args argv = Inr a"
  shows "args_insert a = opt_insert argv" "args_name a = opt_name argv"
    "args_gender a = opt_gender argv" "args_quality a = opt_quality argv"
    "args_lang a = default ''en-us'' (opt_lang argv)"
  using assms by (auto simp: parse_args_def split: if_splits option.splits)

lemma parse_args_error: "parse_args argv = Inl e \<Longrightarrow> \<exists>msg. e = ParserError msg"
  by (auto simp: parse_args_def split: if_splits option.splits)

lemma validate_insert_error: "validate_insert a = Inl e \<Longrightarrow> \<exists>msg. e = ParserError msg"
  by (auto simp: validate_insert_def split: if_splits option.splits)

lemma validate_insert_missing:
  assumes "args_insert a \<noteq> None"
      and "args_name a = None \<or> args_gender a = None \<or> args_quality a = None"
  shows "\<exists>msg. validate_insert a = Inl (ParserError msg)"
  using assms by (auto simp: validate_insert_def split: option.splits if_splits)

lemma main_parsed:
  assumes "parse_args argv = Inr a" and "validate_insert a = Inr ins"
  shows "main env argv db =
           (case main_try env a ins (connect db) of
              (r, conn, tr) \<Rightarrow>
                (r, disk conn, [MkDir (args_output_dir a), Connect (args_db_path a)] @ tr @ [Close]))"
  using assms by (simp add: main_def)

lemma example_parse: "parse_args example_argv = Inr example_args"
  by (simp add: parse_args_def example_argv_def example_args_def default_def)

lemma example_validate: "validate_insert example_args = Inr (Some (1, ''D'', ''X'', 50))"
  by (simp add: validate_insert_def example_args_def default_def)

lemma example_source:
  "get_voice_group_vector example_engine (connect example_db) ''M'' = Inr [1 / 2, 1 / 2]"
  by (simp add: get_voice_group_vector_def np_mean_axis0_def np_asarray_def np_scalar_def
        ex_defs connect_def)

lemma example_target:
  "get_voice_group_vector example_engine (connect example_db) ''F'' = Inr [1, 1]"
  by (simp add: get_voice_group_vector_def np_mean_axis0_def np_asarray_def np_scalar_def
        ex_defs connect_def)

lemma example_interpolate: "interpolate_styles [1 / 2, 1 / 2] [1, 1] 1 = Inr [1, 1]"
  by (simp add: interpolate_styles_def np_binop_def np_scalar_def)

lemma example_main:
  "main example_env example_argv example_db
     = (Inr (), example_db @ [voice_D],
        [MkDir ''output'', Connect ''voices.db'', Execute ''M'', Execute ''F'', LoadKokoro,
         Insert voice_D, Commit, Create ''Hello, world!'' [1, 1] 1 ''en-us'',
         WriteWav ''output/D.wav'' ([], 24000), Close])"
proof -
  have env: "execute example_env = example_engine" "current_timestamp example_env = 7"
    "kokoro_create example_env = (\<lambda>txt voice speed lang. Inr ([], 24000))"
    by (simp_all add: example_env_def)
  have a: "args_source_query example_args = ''M''" "args_target_query example_args = ''F''"
    "args_lang example_args = ''en-us''" "args_notes example_args = None"
    "args_text example_args = ''Hello, world!''" "args_speed example_args = 1"
    "args_output_dir example_args = ''output''" "args_db_path example_args = ''voices.db''"
    by (simp_all add: example_args_def)
  have ins: "sql_insert (table (connect example_db)) voice_D = Inr (example_db @ [voice_D])"
    by (simp add: sql_insert_def connect_def voice_D_def example_db_def voice_A_def voice_B_def voice_C_def)
  have iv: "insert_voice example_env example_args (connect example_db) [1 / 2, 1 / 2] [1, 1] (1, ''D'', ''X'', 50)
        = (Inr (), \<lparr>table = example_db @ [voice_D], disk = example_db @ [voice_D]\<rparr>,
           [Insert voice_D, Commit, Create ''Hello, world!'' [1, 1] 1 ''en-us'',
            WriteWav ''output/D.wav'' ([], 24000)])"
    by (simp add: insert_voice_def example_interpolate env a sql_insert_def Let_def commit_def
          path_join_def connect_def voice_D_def example_db_def voice_A_def voice_B_def voice_C_def)
  show ?thesis
    by (simp add: main_parsed [OF example_parse example_validate] main_try_def env a
          example_source example_target iv)
qed

subsection \<open>Empty groups (claim C3)\<close>

text \<open>
  Claim C3. When the query matches no record, \<open>get_voice_group_vector\<close> raises
  \<^verbatim>\<open>ValueError\<close> with a message that names the query; it returns no vector at all. In
  \<open>main\<close> nothing follows but closing the connection: after an empty source group there
  is no target query, and after an empty target group the synthesis engine is not loaded,
  nothing is inserted or synthesised, and the database is what it was.
\<close>

theorem empty_group_error:
  "(engine query (table conn) = Inr []
      \<longrightarrow> get_voice_group_vector engine conn query
            = Inl (ValueError (''No voices found for query: '' @ query)))
   \<and> (parse_args argv = Inr a \<and> validate_insert a = Inr ins
        \<and> execute env (args_source_query a) db = Inr []
      \<longrightarrow> main env argv db
            = (Inl (ValueError (''No voices found for query: '' @ args_source_query a)), db,
               [MkDir (args_output_dir a), Connect (args_db_path a),
                Execute (args_source_query a), Close]))
   \<and> (parse_args argv = Inr a \<and> validate_insert a = Inr ins
        \<and> get_voice_group_vector (execute env) (connect db) (args_source_query a) = Inr source_style
        \<and> execute env (args_target_query a) db = Inr []
      \<longrightarrow> main env argv db
            = (Inl (ValueError (''No voices found for query: '' @ args_target_query a)), db,
               [MkDir (args_output_dir a), Connect (args_db_path a),
                Execute (args_source_query a), Execute (args_target_query a), Close]))"
proof (intro conjI impI)
  assume "engine query (table conn) = Inr []"
  then show "get_voice_group_vector engine conn query
              = Inl (ValueError (''No voices found for query: '' @ query))"
    by (simp add: get_voice_group_vector_def)
next
  assume h: "parse_args argv = Inr a \<and> validate_insert a = Inr ins
        \<and> execute env (args_source_query a) db = Inr []"
  then have "get_voice_group_vector (execute env) (connect db) (args_source_query a)
              = Inl (ValueError (''No voices found for query: '' @ args_source_query a))"
    by (simp add: get_voice_group_vector_def connect_def)
  then show "main env argv db
            = (Inl (ValueError (''No voices found for query: '' @ args_source_query a)), db,
               [MkDir (args_output_dir a), Connect (args_db_path a),
                Execute (args_source_query a), Close])"
    using h by (simp add: main_parsed main_try_def connect_def)
next
  assume h: "parse_args argv = Inr a \<and> validate_insert a = Inr ins
        \<and> get_voice_group_vector (execute env) (connect db) (args_source_query a) = Inr source_style
        \<and> execute env (args_target_query a) db = Inr []"
  then have "get_voice_group_vector (execute env) (connect db) (args_target_query a)
              = Inl (ValueError (''No voices found for query: '' @ args_target_query a))"
    by (simp add: get_voice_group_vector_def connect_def)
  then show "main env argv db
            = (Inl (ValueError (''No voices found for query: '' @ args_target_query a)), db,
               [MkDir (args_output_dir a), Connect (args_db_path a),
                Execute (args_source_query a), Execute (args_target_query a), Close])"
    using h by (simp add: main_parsed main_try_def connect_def)
qed

theorem empty_group_error_witness:
  "example_engine ''Z'' (table (connect example_db)) = Inr []
   \<and> get_voice_group_vector example_engine (connect example_db) ''Z''
       = Inl (ValueError ''No voices found for query: Z'')
   \<and> parse_args (example_argv\<lparr>opt_source_query := Some ''Z''\<rparr>)
       = Inr (example_args\<lparr>args_source_query := ''Z''\<rparr>)
   \<and> validate_insert (example_args\<lparr>args_source_query := ''Z''\<rparr>) = Inr (Some (1, ''D'', ''X'', 50))
   \<and> execute example_env ''Z'' example_db = Inr []
   \<and> main example_env (example_argv\<lparr>opt_source_query := Some ''Z''\<rparr>) example_db
       = (Inl (ValueError ''No voices found for query: Z''), example_db,
          [MkDir ''output'', Connect ''voices.db'', Execute ''Z'', Close])
   \<and> parse_args (example_argv\<lparr>opt_target_query := Some ''Z''\<rparr>)
       = Inr (example_args\<lparr>args_target_query := ''Z''\<rparr>)
   \<and> validate_insert (example_args\<lparr>args_target_query := ''Z''\<rparr>) = Inr (Some (1, ''D'', ''X'', 50))
   \<and> get_voice_group_vector (execute example_env) (connect example_db) ''M'' = Inr [1 / 2, 1 / 2]
   \<and> main example_env (example_argv\<lparr>opt_target_query := Some ''Z''\<rparr>) example_db
       = (Inl (ValueError ''No voices found for query: Z''), example_db,
          [MkDir ''output'', Connect ''voices.db'', Execute ''M'', Execute ''Z'', Close])"
proof -
  have e: "execute example_env = example_engine" by (simp add: example_env_def)
  have h1: "example_engine ''Z'' (table (connect example_db)) = Inr []"
    by (simp add: ex_defs connect_def)
  have h2: "parse_args (example_argv\<lparr>opt_source_query := Some ''Z''\<rparr>)
       = Inr (example_args\<lparr>args_source_query := ''Z''\<rparr>)"
    by (simp add: parse_args_def example_argv_def example_args_def default_def)
  have h3: "validate_insert (example_args\<lparr>args_source_query := ''Z''\<rparr>) = Inr (Some (1, ''D'', ''X'', 50))"
    by (simp add: validate_insert_def example_args_def default_def)
  have h4: "execute example_env ''Z'' example_db = Inr []"
    by (simp add: ex_defs)
  have h5: "parse_args (example_argv\<lparr>opt_target_query := Some ''Z''\<rparr>)
       = Inr (example_args\<lparr>args_target_query := ''Z''\<rparr>)"
    by (simp add: parse_args_def example_argv_def example_args_def default_def)
  have h6: "validate_insert (example_args\<lparr>args_target_query := ''Z''\<rparr>) = Inr (Some (1, ''D'', ''X'', 50))"
    by (simp add: validate_insert_def example_args_def default_def)
  have h7: "get_voice_group_vector (execute example_env) (connect example_db) ''M'' = Inr [1 / 2, 1 / 2]"
    by (simp add: e example_source)
  have a: "args_source_query example_args = ''M''" "args_target_query example_args = ''F''"
    "args_output_dir example_args = ''output''" "args_db_path example_args = ''voices.db''"
    by (simp_all add: example_args_def)
  show ?thesis
    using empty_group_error [of example_engine "''Z''" "connect example_db"
        "example_argv\<lparr>opt_source_query := Some ''Z''\<rparr>"
        "example_args\<lparr>args_source_query := ''Z''\<rparr>" "Some (1, ''D'', ''X'', 50)"
        example_env example_db "[]"]
      empty_group_error [of example_engine "''Z''" "connect example_db"
        "example_argv\<lparr>opt_target_query := Some ''Z''\<rparr>"
        "example_args\<lparr>args_target_query := ''Z''\<rparr>" "Some (1, ''D'', ''X'', 50)"
        example_env example_db "[1 / 2, 1 / 2]"]
      h1 h2 h3 h4 h5 h6 h7
    by (simp add: a)
qed

subsection \<open>Centroid of a group (claim C4)\<close>






subsection \<open>Vectors of differing dimension (claim C5)\<close>

text \<open>
  Claim C5 as stated fails: \<open>interpolate_styles\<close> on a vector of dimension 1 and a vector
  of dimension 3 raises nothing; numpy broadcasts the single element.
\<close>

theorem interpolate_styles_broadcast_counterexample:
  "length [1 :: real] \<noteq> length [1, 2, 3 :: real]
   \<and> interpolate_styles [1] [1, 2, 3] 0 = Inr [1, 3 / 2, 2]"
  by (simp add: interpolate_styles_def np_binop_def np_scalar_def)

lemma np_mean_axis0_ragged:
  assumes "v \<in> set vs" and "w \<in> set vs" and "length v \<noteq> length w"
  shows "\<exists>msg. np_mean_axis0 vs = Inl (ValueError msg)"
proof -
  have "\<not> (\<forall>u \<in> set vs. length u = length (hd vs))"
    using assms by metis
  then show ?thesis by (simp add: np_mean_axis0_def np_asarray_def)
qed

lemma interpolate_styles_no_broadcast:
  assumes "length s \<noteq> length t" "length s \<noteq> 1" "length t \<noteq> 1"
  shows "interpolate_styles s t f = Inl (ValueError ''operands could not be broadcast together'')"
  using assms by (simp add: interpolate_styles_def np_binop_def)

lemma interpolate_styles_broadcast_source:
  assumes "length s \<noteq> length t" "length s = 1"
  shows "interpolate_styles s t f = Inr (map (\<lambda>y. (hd s + y) / 2 + (y - hd s) * f / 2) t)"
proof -
  have "map2 (+) (map (\<lambda>x. (hd s + x) / 2) t) (map (\<lambda>x. (x - hd s) * f / 2) t)
      = map (\<lambda>y. (hd s + y) / 2 + (y - hd s) * f / 2) t"
    by (induction t) simp_all
  then show ?thesis
    using assms by (simp add: interpolate_styles_def np_binop_def np_scalar_def comp_def)
qed

lemma interpolate_styles_broadcast_target:
  assumes "length s \<noteq> length t" "length t = 1"
  shows "interpolate_styles s t f = Inr (map (\<lambda>x. (x + hd t) / 2 + (hd t - x) * f / 2) s)"
proof -
  have "map2 (+) (map (\<lambda>x. (x + hd t) / 2) s) (map (\<lambda>x. (hd t - x) * f / 2) s)
      = map (\<lambda>x. (x + hd t) / 2 + (hd t - x) * f / 2) s"
    by (induction s) simp_all
  then show ?thesis
    using assms by (simp add: interpolate_styles_def np_binop_def np_scalar_def comp_def)
qed

text \<open>
  Claim C5, amended. For every matched group that contains two vectors of differing
  dimension, group resolution aborts with numpy's \<^verbatim>\<open>ValueError\<close> rather than averaging.
  \<open>interpolate_styles\<close> on two vectors of differing dimension aborts with \<^verbatim>\<open>ValueError\<close>
  when neither has dimension one; when one of them has dimension one, its single element
  is broadcast against every element of the other and the formula is applied.
\<close>

theorem dimension_mismatch:
  "(ex query (table conn) = Inr voices \<and> r1 \<in> set voices \<and> r2 \<in> set voices
      \<and> length (style_vector r1) \<noteq> length (style_vector r2)
    \<longrightarrow> (\<exists>msg. get_voice_group_vector ex conn query = Inl (ValueError msg)))
   \<and> (length s \<noteq> length t \<and> length s \<noteq> 1 \<and> length t \<noteq> 1
    \<longrightarrow> (\<exists>msg. interpolate_styles s t f = Inl (ValueError msg)))
   \<and> (length s \<noteq> length t \<and> length s = 1
    \<longrightarrow> interpolate_styles s t f = Inr (map (\<lambda>y. (hd s + y) / 2 + (y - hd s) * f / 2) t))
   \<and> (length s \<noteq> length t \<and> length t = 1
    \<longrightarrow> interpolate_styles s t f = Inr (map (\<lambda>x. (x + hd t) / 2 + (hd t - x) * f / 2) s))"
proof -
  have "\<exists>msg. get_voice_group_vector ex conn query = Inl (ValueError msg)"
    if h: "ex query (table conn) = Inr voices" "r1 \<in> set voices" "r2 \<in> set voices"
          "length (style_vector r1) \<noteq> length (style_vector r2)"
  proof -
    have "voices \<noteq> []" using h(2) by auto
    then have "get_voice_group_vector ex conn query = np_mean_axis0 (map style_vector voices)"
      using h(1) by (simp add: get_voice_group_vector_def)
    moreover have "\<exists>msg. np_mean_axis0 (map style_vector voices) = Inl (ValueError msg)"
      using np_mean_axis0_ragged [of "style_vector r1" "map style_vector voices" "style_vector r2"] h
      by simp
    ultimately show ?thesis by simp
  qed
  then show ?thesis
    using interpolate_styles_no_broadcast [of s t f] interpolate_styles_broadcast_source [of s t f]
      interpolate_styles_broadcast_target [of s t f]
    by blast
qed

theorem dimension_mismatch_witness:
  "example_engine ''M'' (table (connect [voice_A, voice_B\<lparr>style_vector := [0, 1, 2]\<rparr>]))
       = Inr [voice_A, voice_B\<lparr>style_vector := [0, 1, 2]\<rparr>]
   \<and> length (style_vector voice_A) \<noteq> length (style_vector (voice_B\<lparr>style_vector := [0, 1, 2]\<rparr>))
   \<and> (\<exists>msg. get_voice_group_vector example_engine
               (connect [voice_A, voice_B\<lparr>style_vector := [0, 1, 2]\<rparr>]) ''M''
             = Inl (ValueError msg))
   \<and> length [1, 2 :: real] \<noteq> length [1, 2, 3 :: real]
   \<and> (\<exists>msg. interpolate_styles [1, 2] [1, 2, 3] 0 = Inl (ValueError msg))
   \<and> interpolate_styles [1] [1, 2, 3] 1 = Inr [1, 2, 3]
   \<and> interpolate_styles [1, 2, 3] [1] 1 = Inr [1, 1, 1]"
proof -
  have h1: "example_engine ''M'' (table (connect [voice_A, voice_B\<lparr>style_vector := [0, 1, 2]\<rparr>]))
       = Inr [voice_A, voice_B\<lparr>style_vector := [0, 1, 2]\<rparr>]"
    by (simp add: ex_defs connect_def)
  have h2: "length (style_vector voice_A) \<noteq> length (style_vector (voice_B\<lparr>style_vector := [0, 1, 2]\<rparr>))"
    by (simp add: ex_defs)
  show ?thesis
    using dimension_mismatch [of example_engine "''M''"
        "connect [voice_A, voice_B\<lparr>style_vector := [0, 1, 2]\<rparr>]"
        "[voice_A, voice_B\<lparr>style_vector := [0, 1, 2]\<rparr>]" voice_A
        "voice_B\<lparr>style_vector := [0, 1, 2]\<rparr>" "[1, 2]" "[1, 2, 3]" 0]
      dimension_mismatch [of example_engine "''M''" "connect example_db" "[]" voice_A voice_A
        "[1]" "[1, 2, 3]" 1]
      dimension_mismatch [of example_engine "''M''" "connect example_db" "[]" voice_A voice_A
        "[1, 2, 3]" "[1]" 1]
      h1 h2
    by simp
qed

subsection \<open>Names that already exist (claim C6)\<close>

lemma length_filter_other_names:
  "distinct (map name tbl) \<Longrightarrow> n \<in> set (map name tbl) \<Longrightarrow>
   Suc (length (filter (\<lambda>r. name r \<noteq> n) tbl)) = length tbl"
proof (induction tbl)
  case Nil
  then show ?case by simp
next
  case (Cons r tbl)
  show ?case
  proof (cases "name r = n")
    case True
    then have "n \<notin> set (map name tbl)" using Cons.prems(1) by auto
    then have "filter (\<lambda>r. name r \<noteq> n) tbl = tbl" by (induction tbl) auto
    then show ?thesis using True by simp
  next
    case False
    then show ?thesis using Cons by auto
  qed
qed

lemma insert_entry_complete:
  assumes "voice_name v = Val n" "voice_gender v = Val g" "voice_language v = Val l"
    "voice_quality v = Val q" "kokoro n = Inr sv"
  shows "insert_entry kokoro now tbl v =
           Inr (filter (\<lambda>r. name r \<noteq> n) tbl @
                [\<lparr>name = n, gender = g, language = l, quality = q,
                  training_duration = get (voice_training_duration v), style_vector = sv,
                  is_synthetic = default False (get_default (voice_is_synthetic v) False),
                  row_notes = get (voice_notes v), created_at = now\<rparr>])"
  using assms
  by (simp add: insert_entry_def getitem_def get_voice_style_def sql_insert_or_replace_def
        not_null_def default_def)

lemma main_insert_duplicate:
  assumes "parse_args argv = Inr a" "validate_insert a = Inr (Some (f, n, g, q))"
    "n \<in> set (map name db)"
  shows "\<exists>e tr. main env argv db = (Inl e, db, tr)"
  using assms(3)
  by (auto simp: main_parsed [OF assms(1,2)] main_try_def insert_voice_def sql_insert_def
        connect_def Let_def split: sum.splits)

lemma main_insert_duplicate_reached:
  assumes "parse_args argv = Inr a" "validate_insert a = Inr (Some (f, n, g, q))"
    "n \<in> set (map name db)"
    "get_voice_group_vector (execute env) (connect db) (args_source_query a) = Inr s"
    "get_voice_group_vector (execute env) (connect db) (args_target_query a) = Inr t"
    "interpolate_styles s t f = Inr st"
  shows "main env argv db =
          (Inl (IntegrityError ''UNIQUE constraint failed: voices.name''), db,
           [MkDir (args_output_dir a), Connect (args_db_path a),
            Execute (args_source_query a), Execute (args_target_query a), LoadKokoro,
            Insert \<lparr>name = n, gender = g, language = args_lang a, quality = q,
                    training_duration = None, style_vector = st, is_synthetic = True,
                    row_notes = args_notes a, created_at = current_timestamp env\<rparr>,
            Close])"
  using assms(3-)
  by (simp add: main_parsed [OF assms(1,2)] main_try_def insert_voice_def sql_insert_def
        connect_def Let_def)

text \<open>
  Claim C6. Bulk load of an entry whose name is already in the table replaces the row of
  that name (no error; the table keeps its size, and the change is committed). The
  synthetic insertion of a name that is already in the table never succeeds and leaves the
  database as it was; when the run reaches the \<^verbatim>\<open>INSERT\<close> statement, the error is
  \<^verbatim>\<open>sqlite3.IntegrityError\<close> for the unique \<open>name\<close>, and nothing is committed, synthesised
  or written after it.
\<close>

theorem duplicate_name:
  "(voice_name v = Val n \<and> voice_gender v = Val g \<and> voice_language v = Val l
      \<and> voice_quality v = Val q \<and> kokoro n = Inr sv
      \<and> n \<in> set (map name (table conn)) \<and> distinct (map name (table conn))
    \<longrightarrow> (\<exists>conn'. populate_database now conn (Some [v]) kokoro = (Inr (), conn')
            \<and> disk conn' = table conn'
            \<and> table conn' = filter (\<lambda>r. name r \<noteq> n) (table conn) @
                [\<lparr>name = n, gender = g, language = l, quality = q,
                  training_duration = get (voice_training_duration v), style_vector = sv,
                  is_synthetic = default False (get_default (voice_is_synthetic v) False),
                  row_notes = get (voice_notes v), created_at = now\<rparr>]
            \<and> length (table conn') = length (table conn)))
   \<and> (parse_args argv = Inr a \<and> validate_insert a = Inr (Some (f, m, g', q'))
      \<and> m \<in> set (map name db)
    \<longrightarrow> (\<exists>e tr. main env argv db = (Inl e, db, tr))
        \<and> (\<forall>s t st.
              get_voice_group_vector (execute env) (connect db) (args_source_query a) = Inr s
              \<and> get_voice_group_vector (execute env) (connect db) (args_target_query a) = Inr t
              \<and> interpolate_styles s t f = Inr st
            \<longrightarrow> main env argv db =
                  (Inl (IntegrityError ''UNIQUE constraint failed: voices.name''), db,
                   [MkDir (args_output_dir a), Connect (args_db_path a),
                    Execute (args_source_query a), Execute (args_target_query a), LoadKokoro,
                    Insert \<lparr>name = m, gender = g', language = args_lang a, quality = q',
                            training_duration = None, style_vector = st, is_synthetic = True,
                            row_notes = args_notes a, created_at = current_timestamp env\<rparr>,
                    Close])))"
proof (intro conjI impI)
  assume h: "voice_name v = Val n \<and> voice_gender v = Val g \<and> voice_language v = Val l
      \<and> voice_quality v = Val q \<and> kokoro n = Inr sv
      \<and> n \<in> set (map name (table conn)) \<and> distinct (map name (table conn))"
  let ?row = "\<lparr>name = n, gender = g, language = l, quality = q,
                  training_duration = get (voice_training_duration v), style_vector = sv,
                  is_synthetic = default False (get_default (voice_is_synthetic v) False),
                  row_notes = get (voice_notes v), created_at = now\<rparr>"
  let ?tbl = "filter (\<lambda>r. name r \<noteq> n) (table conn) @ [?row]"
  have ie: "insert_entry kokoro now (table conn) v = Inr ?tbl"
    using h by (intro insert_entry_complete) simp_all
  have len: "length ?tbl = length (table conn)"
    using length_filter_other_names [of "table conn" n] h by simp
  have "populate_database now conn (Some [v]) kokoro = (Inr (), commit (conn\<lparr>table := ?tbl\<rparr>))"
    by (simp add: populate_database_def ie)
  then show "\<exists>conn'. populate_database now conn (Some [v]) kokoro = (Inr (), conn')
            \<and> disk conn' = table conn' \<and> table conn' = ?tbl
            \<and> length (table conn') = length (table conn)"
    using len by (simp add: commit_def)
next
  assume h: "parse_args argv = Inr a \<and> validate_insert a = Inr (Some (f, m, g', q'))
      \<and> m \<in> set (map name db)"
  then show "\<exists>e tr. main env argv db = (Inl e, db, tr)"
    using main_insert_duplicate [of argv a f m g' q' db env] by simp
next
  assume h: "parse_args argv = Inr a \<and> validate_insert a = Inr (Some (f, m, g', q'))
      \<and> m \<in> set (map name db)"
  then show "\<forall>s t st.
              get_voice_group_vector (execute env) (connect db) (args_source_query a) = Inr s
              \<and> get_voice_group_vector (execute env) (connect db) (args_target_query a) = Inr t
              \<and> interpolate_styles s t f = Inr st
            \<longrightarrow> main env argv db =
                  (Inl (IntegrityError ''UNIQUE constraint failed: voices.name''), db,
                   [MkDir (args_output_dir a), Connect (args_db_path a),
                    Execute (args_source_query a), Execute (args_target_query a), LoadKokoro,
                    Insert \<lparr>name = m, gender = g', language = args_lang a, quality = q',
                            training_duration = None, style_vector = st, is_synthetic = True,
                            row_notes = args_notes a, created_at = current_timestamp env\<rparr>,
                    Close])"
    using main_insert_duplicate_reached [of argv a f m g' q' db env] by blast
qed

lemmas bulk_defs = populate_database_def insert_entry_def getitem_def get_voice_style_def
  sql_insert_or_replace_def not_null_def default_def get_def get_default_def commit_def
  connect_def example_voice_def example_kokoro_def

theorem duplicate_name_witness:
  "voice_name (example_voice (Val ''A'')) = Val ''A''
   \<and> voice_gender (example_voice (Val ''A'')) = Val ''F''
   \<and> voice_language (example_voice (Val ''A'')) = Val ''en-us''
   \<and> voice_quality (example_voice (Val ''A'')) = Val 60
   \<and> example_kokoro ''A'' = Inr [5, 5]
   \<and> ''A'' \<in> set (map name (table (connect example_db)))
   \<and> distinct (map name (table (connect example_db)))
   \<and> populate_database 9 (connect example_db) (Some [example_voice (Val ''A'')]) example_kokoro
       = (Inr (), \<lparr>table = [voice_B, voice_C, voice_A'], disk = [voice_B, voice_C, voice_A']\<rparr>)
   \<and> parse_args (example_argv\<lparr>opt_name := Some ''A''\<rparr>) = Inr (example_args\<lparr>args_name := Some ''A''\<rparr>)
   \<and> validate_insert (example_args\<lparr>args_name := Some ''A''\<rparr>) = Inr (Some (1, ''A'', ''X'', 50))
   \<and> ''A'' \<in> set (map name example_db)
   \<and> main example_env (example_argv\<lparr>opt_name := Some ''A''\<rparr>) example_db
       = (Inl (IntegrityError ''UNIQUE constraint failed: voices.name''), example_db,
          [MkDir ''output'', Connect ''voices.db'', Execute ''M'', Execute ''F'', LoadKokoro,
           Insert (voice_D\<lparr>name := ''A''\<rparr>), Close])"
proof -
  let ?v = "example_voice (Val ''A'')"
  have v: "voice_name ?v = Val ''A''" "voice_gender ?v = Val ''F''"
    "voice_language ?v = Val ''en-us''" "voice_quality ?v = Val 60"
    "voice_training_duration ?v = Missing" "voice_is_synthetic ?v = Missing"
    "voice_notes ?v = Null"
    by (simp_all add: example_voice_def)
  have k: "example_kokoro ''A'' = Inr [5, 5]" by (simp add: example_kokoro_def)
  have t: "table (connect example_db) = [voice_A, voice_B, voice_C]"
    by (simp add: connect_def example_db_def)
  have nm: "name voice_A = ''A''" "name voice_B = ''B''" "name voice_C = ''C''"
    by (simp_all add: ex_defs)
  have p: "parse_args (example_argv\<lparr>opt_name := Some ''A''\<rparr>) = Inr (example_args\<lparr>args_name := Some ''A''\<rparr>)"
    by (simp add: parse_args_def example_argv_def example_args_def default_def)
  have vi: "validate_insert (example_args\<lparr>args_name := Some ''A''\<rparr>) = Inr (Some (1, ''A'', ''X'', 50))"
    by (simp add: validate_insert_def example_args_def default_def)
  have e: "execute example_env = example_engine" "current_timestamp example_env = 7"
    by (simp_all add: example_env_def)
  have a: "args_source_query example_args = ''M''" "args_target_query example_args = ''F''"
    "args_lang example_args = ''en-us''" "args_notes example_args = None"
    "args_output_dir example_args = ''output''" "args_db_path example_args = ''voices.db''"
    by (simp_all add: example_args_def)
  note inst = duplicate_name [of ?v "''A''" "''F''" "''en-us''" 60 example_kokoro "[5, 5]"
        "connect example_db" 9 "example_argv\<lparr>opt_name := Some ''A''\<rparr>"
        "example_args\<lparr>args_name := Some ''A''\<rparr>" 1 "''A''" "''X''" 50 example_db example_env]
  have bulk: "\<exists>conn'. populate_database 9 (connect example_db) (Some [?v]) example_kokoro = (Inr (), conn')
      \<and> disk conn' = table conn'
      \<and> table conn' = [voice_B, voice_C, voice_A']"
    using inst [THEN conjunct1]
    by (simp add: v k t nm get_def get_default_def default_def voice_A'_def) blast
  have syn: "main example_env (example_argv\<lparr>opt_name := Some ''A''\<rparr>) example_db
       = (Inl (IntegrityError ''UNIQUE constraint failed: voices.name''), example_db,
          [MkDir ''output'', Connect ''voices.db'', Execute ''M'', Execute ''F'', LoadKokoro,
           Insert (voice_D\<lparr>name := ''A''\<rparr>), Close])"
    using inst [THEN conjunct2] p vi example_source example_target example_interpolate
    by (simp add: e a example_db_def nm voice_D_def)
  from bulk obtain conn' where
    "populate_database 9 (connect example_db) (Some [?v]) example_kokoro = (Inr (), conn')"
    "disk conn' = table conn'" "table conn' = [voice_B, voice_C, voice_A']"
    by blast
  then have "populate_database 9 (connect example_db) (Some [?v]) example_kokoro
       = (Inr (), \<lparr>table = [voice_B, voice_C, voice_A'], disk = [voice_B, voice_C, voice_A']\<rparr>)"
    by (cases conn') simp
  then show ?thesis
    using syn p vi by (simp add: v k nm example_db_def connect_def)
qed

subsection \<open>Missing arguments of an insertion (claim C7)\<close>

text \<open>
  Claim C7. When \<^verbatim>\<open>--insert\<close> is given and any of \<^verbatim>\<open>--name\<close>, \<^verbatim>\<open>--gender\<close>,
  \<^verbatim>\<open>--quality\<close> is missing, \<open>main\<close> ends with the parser's error, the database is what it
  was, and no event has happened: no directory, no connection, no statement, no call of the
  synthesis engine.
\<close>

theorem main_missing_argument:
  assumes "opt_insert argv \<noteq> None"
      and "opt_name argv = None \<or> opt_gender argv = None \<or> opt_quality argv = None"
  shows "\<exists>msg. main env argv db = (Inl (ParserError msg), db, [])"
proof (cases "parse_args argv")
  case (Inl e)
  then show ?thesis using parse_args_error [OF Inl] by (auto simp: main_def)
next
  case (Inr a)
  have "\<exists>msg. validate_insert a = Inl (ParserError msg)"
    using assms parse_args_fields [OF Inr] by (intro validate_insert_missing) simp_all
  then show ?thesis using Inr by (auto simp: main_def)
qed

theorem main_missing_argument_witness:
  "opt_insert (example_argv\<lparr>opt_quality := None\<rparr>) \<noteq> None
   \<and> (opt_name (example_argv\<lparr>opt_quality := None\<rparr>) = None
        \<or> opt_gender (example_argv\<lparr>opt_quality := None\<rparr>) = None
        \<or> opt_quality (example_argv\<lparr>opt_quality := None\<rparr>) = None)
   \<and> main example_env (example_argv\<lparr>opt_quality := None\<rparr>) example_db
       = (Inl (ParserError ''--quality is required when using --insert''), example_db, [])"
proof -
  have "\<exists>msg. main example_env (example_argv\<lparr>opt_quality := None\<rparr>) example_db
          = (Inl (ParserError msg), example_db, [])"
    by (rule main_missing_argument) (simp_all add: example_argv_def)
  moreover have "main example_env (example_argv\<lparr>opt_quality := None\<rparr>) example_db
       = (Inl (ParserError ''--quality is required when using --insert''), example_db, [])"
    by (simp add: main_def parse_args_def validate_insert_def default_def example_argv_def)
  ultimately show ?thesis by (simp add: example_argv_def)
qed

subsection \<open>Export of an empty catalog (claim C8)\<close>

text \<open>
  Claim C8. On a catalog without voices \<open>export_all_voices\<close> raises
  \<^verbatim>\<open>ValueError("No voices found in database")\<close> and leaves the file system as it was: no
  output file is written.
\<close>

theorem export_all_voices_empty:
  assumes "table conn = []"
  shows "export_all_voices conn output_file fs = (Inl (ValueError ''No voices found in database''), fs)"
  using assms by (simp add: export_all_voices_def)

theorem export_all_voices_empty_witness:
  "table (connect []) = []
   \<and> export_all_voices (connect []) ''exported_voices/voices.bin'' Map.empty
       = (Inl (ValueError ''No voices found in database''), Map.empty)"
  using export_all_voices_empty [of "connect []" "''exported_voices/voices.bin''" Map.empty]
  by (simp add: connect_def)

subsection \<open>Failing entries of the bulk load (claim C9)\<close>

lemma populate_loop_named:
  assumes "\<forall>v \<in> set vs. voice_name v \<noteq> Missing"
  shows "populate_loop kokoro now tbl vs = (Inr (), foldl (skip_failed kokoro now) tbl vs)"
  using assms
proof (induction vs arbitrary: tbl)
  case Nil
  then show ?case by simp
next
  case (Cons v vs)
  then have "\<exists>n. getitem ''name'' (voice_name v) = Inr n"
    by (cases "voice_name v") (simp_all add: getitem_def)
  then show ?case
    using Cons by (auto simp: skip_failed_def split: sum.splits)
qed

lemma populate_database_named:
  assumes "\<forall>v \<in> set vs. voice_name v \<noteq> Missing"
  shows "populate_database now conn (Some vs) kokoro
           = (Inr (), \<lparr>table = foldl (skip_failed kokoro now) (table conn) vs,
                        disk = foldl (skip_failed kokoro now) (table conn) vs\<rparr>)"
  by (simp add: populate_database_def populate_loop_named [OF assms] commit_def)

lemma populate_loop_nameless:
  assumes "voice_name v = Missing"
  shows "populate_loop kokoro now tbl (v # vs) = (Inl (KeyError ''name''), tbl)"
  using assms by (simp add: insert_entry_def getitem_def)

text \<open>
  Claim C9 fails on an entry without the key \<^verbatim>\<open>name\<close>: the handler's own
  \<^verbatim>\<open>voice['name']\<close> raises \<^verbatim>\<open>KeyError\<close>, the loop ends, the entry after it is not
  processed and nothing is committed (the entry before it is in the connection's table
  only). An entry whose style vector is missing is skipped as the claim says.
\<close>

theorem populate_database_nameless_entry:
  "populate_database 9 (connect example_db)
     (Some [example_voice (Val ''E''), example_voice Missing, example_voice (Val ''A'')])
     example_kokoro
   = (Inl (KeyError ''name''), \<lparr>table = example_db @ [voice_E], disk = example_db\<rparr>)
   \<and> populate_database 9 (connect example_db)
     (Some [example_voice (Val ''E''), example_voice (Val ''Q''), example_voice (Val ''A'')])
     example_kokoro
   = (Inr (), \<lparr>table = [voice_B, voice_C, voice_E, voice_A'],
               disk = [voice_B, voice_C, voice_E, voice_A']\<rparr>)"
  by (simp add: bulk_defs ex_defs voice_E_def voice_A'_def)

subsection \<open>Rows of synthetic voices (claim C10)\<close>

lemma sample_loop_no_insert: "Insert row \<notin> set (snd (sample_loop env a s t fs))"
  by (induction fs) (auto simp: Let_def split: sum.splits prod.splits)

lemma generate_samples_no_insert: "Insert row \<notin> set (snd (generate_samples env a s t))"
  by (simp add: generate_samples_def sample_loop_no_insert split: sum.splits)

lemma insert_voice_rows:
  assumes "insert_voice env a conn s t ins = (r, conn', tr)"
      and "(row \<in> set (disk conn') \<and> row \<notin> set (disk conn) \<and> row \<notin> set (table conn))
           \<or> Insert row \<in> set tr"
  shows "language row = args_lang a \<and> is_synthetic row \<and> training_duration row = None"
  using assms
  by (auto simp: insert_voice_def sql_insert_def commit_def Let_def
           split: prod.splits sum.splits if_splits)

lemma main_try_rows:
  assumes "main_try env a ins (connect db) = (r, conn', tr)"
      and "(row \<in> set (disk conn') \<and> row \<notin> set db) \<or> Insert row \<in> set tr"
  shows "language row = args_lang a \<and> is_synthetic row \<and> training_duration row = None"
proof (cases "get_voice_group_vector (execute env) (connect db) (args_source_query a)")
  case (Inl e)
  then show ?thesis using assms by (auto simp: main_try_def connect_def)
next
  case src: (Inr s)
  show ?thesis
  proof (cases "get_voice_group_vector (execute env) (connect db) (args_target_query a)")
    case (Inl e)
    then show ?thesis using assms src by (auto simp: main_try_def connect_def)
  next
    case tgt: (Inr t)
    show ?thesis
    proof (cases ins)
      case None
      then show ?thesis
        using assms src tgt generate_samples_no_insert [of row env a s t]
        by (auto simp: main_try_def connect_def split: prod.splits)
    next
      case (Some i)
      obtain r1 c1 tr1 where iv: "insert_voice env a (connect db) s t i = (r1, c1, tr1)"
        by (cases "insert_voice env a (connect db) s t i") auto
      have "conn' = c1" "tr = [Execute (args_source_query a), Execute (args_target_query a), LoadKokoro] @ tr1"
        using assms(1) src tgt Some iv by (auto simp: main_try_def)
      then show ?thesis
        using insert_voice_rows [OF iv, of row] assms(2) by (auto simp: connect_def)
    qed
  qed
qed

text \<open>
  Claim C10. Every row that a run of \<open>main\<close> inserts (a row in the database afterwards
  that was not there before, or the row of an \<^verbatim>\<open>INSERT\<close> statement sent) has its
  \<open>language\<close> equal to \<^verbatim>\<open>--lang\<close>, which is \<^verbatim>\<open>en-us\<close> when the option is absent, has
  \<open>is_synthetic\<close> true, and has no \<open>training_duration\<close>. The command line has no other
  option from which the row's language could come.
\<close>

theorem synthetic_row_fields:
  assumes "main env argv db = (r, db', tr)"
      and "(row \<in> set db' \<and> row \<notin> set db) \<or> Insert row \<in> set tr"
  shows "language row = default ''en-us'' (opt_lang argv) \<and> is_synthetic row
         \<and> training_duration row = None"
proof (cases "parse_args argv")
  case (Inl e)
  then show ?thesis using assms by (auto simp: main_def)
next
  case (Inr a)
  show ?thesis
  proof (cases "validate_insert a")
    case (Inl e)
    then show ?thesis using assms Inr by (auto simp: main_def)
  next
    case ins: (Inr ins)
    obtain r1 c1 tr1 where mt: "main_try env a ins (connect db) = (r1, c1, tr1)"
      by (cases "main_try env a ins (connect db)") auto
    have "db' = disk c1" "tr = [MkDir (args_output_dir a), Connect (args_db_path a)] @ tr1 @ [Close]"
      using assms(1) main_parsed [OF Inr ins, of env db] mt by auto
    then show ?thesis
      using main_try_rows [OF mt, of row] assms(2) parse_args_fields(5) [OF Inr] by auto
  qed
qed

theorem synthetic_row_fields_witness:
  "main example_env example_argv example_db
     = (Inr (), example_db @ [voice_D],
        [MkDir ''output'', Connect ''voices.db'', Execute ''M'', Execute ''F'', LoadKokoro,
         Insert voice_D, Commit, Create ''Hello, world!'' [1, 1] 1 ''en-us'',
         WriteWav ''output/D.wav'' ([], 24000), Close])
   \<and> voice_D \<in> set (example_db @ [voice_D]) \<and> voice_D \<notin> set example_db
   \<and> opt_lang example_argv = None
   \<and> language voice_D = ''en-us'' \<and> is_synthetic voice_D \<and> training_duration voice_D = None"
proof -
  have n: "voice_D \<notin> set example_db"
    by (simp add: example_db_def voice_A_def voice_B_def voice_C_def voice_D_def)
  have l: "opt_lang example_argv = None" by (simp add: example_argv_def)
  show ?thesis
    using synthetic_row_fields [OF example_main, of voice_D] n l example_main
    by (simp add: default_def)
qed

end
